theory Spec2Isabelle
  imports Complex_Main "HOL-Library.Multiset" "HOL-Library.AList"
begin

section \<open>Data model (types.ts)\<close>

text \<open>
  The finite JavaScript numbers of the pipeline are modelled as real numbers: every
  theorem below is about exact arithmetic, and says nothing about the rounding or the
  overflow of IEEE doubles. The exported function \<open>calculateDynamicZScore\<close> is modelled
  on JavaScript numbers with Infinity, -Infinity and NaN (type \<open>jsnum\<close> below), so that
  a division by zero and a square root of a negative number are visible in its result.
  A reply of the analyzer without a score makes the score of the alert NaN, which is
  \<open>None\<close> there. Counters and time stamps that the code only increments or copies are
  \<open>nat\<close> and \<open>int\<close>.
  Field names that clash with a HOL constant or with another interface are prefixed.
\<close>

datatype Side = BUY | SELL

record PolymarketMarket =
  market_id :: string
  gammaId :: string
  question :: string
  slug :: string
  endDate :: string
  volume :: real
  liquidity :: real
  outcomes :: "string list"
  outcomePrices :: "string list"

record Trade =
  trade_id :: string
  marketId :: string
  marketQuestion :: string
  outcomeIndex :: int
  outcomeLabel :: string
  side :: Side
  price :: real
  trade_size :: real
  timestamp :: int
  makerAddress :: string
  transactionHash :: string

record MarketStats =
  count :: nat
  meanSize :: real
  m2Size :: real
  lastUpdate :: int

datatype SuspicionLevel = LOW | MEDIUM | HIGH | CRITICAL

section \<open>Running statistics tracker (App.tsx, updateMarketStats)\<close>

type_synonym StatsMap = "string \<rightharpoonup> MarketStats"

text \<open>
  \<open>marketStatsRef.current.get(marketId) || {count: 0, meanSize: 0, m2Size: 0, ...}\<close>:
  a stored object is always truthy, so the default is taken exactly when the key is absent.
  The first argument is the reading of \<open>Date.now()\<close>.
\<close>

definition statsOrDefault :: "int \<Rightarrow> StatsMap \<Rightarrow> string \<Rightarrow> MarketStats" where
  "statsOrDefault now m mid =
     (case m mid of
        Some s \<Rightarrow> s
      | None \<Rightarrow> \<lparr>count = 0, meanSize = 0, m2Size = 0, lastUpdate = now\<rparr>)"

definition welfordStep :: "int \<Rightarrow> MarketStats \<Rightarrow> real \<Rightarrow> MarketStats" where
  "welfordStep now stats sz =
     (let cnt = count stats + 1;
          delta = sz - meanSize stats;
          mean' = meanSize stats + delta / real cnt;
          m2' = m2Size stats + delta * (sz - mean')
      in \<lparr>count = cnt, meanSize = mean', m2Size = m2', lastUpdate = now\<rparr>)"

definition updateMarketStats ::
    "int \<Rightarrow> string \<Rightarrow> real \<Rightarrow> StatsMap \<Rightarrow> MarketStats \<times> StatsMap" where
  "updateMarketStats now mid sz m =
     (let newStats = welfordStep now (statsOrDefault now m mid) sz
      in (newStats, m(mid \<mapsto> newStats)))"

text \<open>
  Feeding a sequence of observations (clock reading, market id, size) in order, and the
  sizes observed for one market among them.
\<close>

fun feedTrades :: "(int \<times> string \<times> real) list \<Rightarrow> StatsMap \<Rightarrow> StatsMap" where
  "feedTrades [] m = m"
| "feedTrades ((now, mid, sz) # rest) m =
     feedTrades rest (snd (updateMarketStats now mid sz m))"

definition sizesOf :: "string \<Rightarrow> (int \<times> string \<times> real) list \<Rightarrow> real list" where
  "sizesOf mid obs = map (\<lambda>ob. snd (snd ob)) (filter (\<lambda>ob. fst (snd ob) = mid) obs)"

text \<open>The batch recomputation the tracker is compared with.\<close>

definition batchMean :: "real list \<Rightarrow> real" where
  "batchMean xs = sum_list xs / real (length xs)"

definition batchVariance :: "real list \<Rightarrow> real" where
  "batchVariance xs =
     (\<Sum>y\<leftarrow>xs. (y - batchMean xs)\<^sup>2) / real (length xs)"


section \<open>Heuristic scorer (services/polymarketService.ts)\<close>

text \<open>
  \<open>String.prototype.toLowerCase\<close> on the ASCII letters. The denylisted address is made
  of ASCII hexadecimal digits and \<open>x\<close>, so only this part of the conversion decides the
  comparison with it.
\<close>

definition toLowerCaseChar :: "char \<Rightarrow> char" where
  "toLowerCaseChar c =
     (case map_of (zip ''ABCDEFGHIJKLMNOPQRSTUVWXYZ'' ''abcdefghijklmnopqrstuvwxyz'') c of
        Some l \<Rightarrow> l
      | None \<Rightarrow> c)"

definition toLowerCase :: "string \<Rightarrow> string" where
  "toLowerCase s = map toLowerCaseChar s"

subsection \<open>JavaScript numbers\<close>

text \<open>
  A JavaScript number as \<open>calculateDynamicZScore\<close> can receive and return it: a finite
  value, taken as the real number it denotes, or Infinity, -Infinity or NaN. The
  operations are those of IEEE arithmetic on these values, exact on the finite ones; zero
  has no sign here, and a division by zero is one by \<open>+0\<close>.
\<close>

datatype jsnum = Num real | PosInf | NegInf | NaN

fun isFinite :: "jsnum \<Rightarrow> bool" where
  "isFinite (Num a) = True"
| "isFinite x = False"

fun jsSub :: "jsnum \<Rightarrow> jsnum \<Rightarrow> jsnum" where
  "jsSub (Num a) (Num b) = Num (a - b)"
| "jsSub (Num a) PosInf = NegInf"
| "jsSub (Num a) NegInf = PosInf"
| "jsSub (Num a) NaN = NaN"
| "jsSub PosInf (Num b) = PosInf"
| "jsSub PosInf PosInf = NaN"
| "jsSub PosInf NegInf = PosInf"
| "jsSub PosInf NaN = NaN"
| "jsSub NegInf (Num b) = NegInf"
| "jsSub NegInf PosInf = NegInf"
| "jsSub NegInf NegInf = NaN"
| "jsSub NegInf NaN = NaN"
| "jsSub NaN y = NaN"

fun jsDiv :: "jsnum \<Rightarrow> jsnum \<Rightarrow> jsnum" where
  "jsDiv (Num a) (Num b) =
     (if b = 0 then (if a = 0 then NaN else if 0 < a then PosInf else NegInf)
      else Num (a / b))"
| "jsDiv (Num a) PosInf = Num 0"
| "jsDiv (Num a) NegInf = Num 0"
| "jsDiv (Num a) NaN = NaN"
| "jsDiv PosInf (Num b) = (if 0 \<le> b then PosInf else NegInf)"
| "jsDiv PosInf PosInf = NaN"
| "jsDiv PosInf NegInf = NaN"
| "jsDiv PosInf NaN = NaN"
| "jsDiv NegInf (Num b) = (if 0 \<le> b then NegInf else PosInf)"
| "jsDiv NegInf PosInf = NaN"
| "jsDiv NegInf NegInf = NaN"
| "jsDiv NegInf NaN = NaN"
| "jsDiv NaN y = NaN"

text \<open>\<open>Math.sqrt\<close>, \<open><\<close> and \<open>===\<close> on numbers: NaN is below nothing and equal to nothing.\<close>

fun jsSqrt :: "jsnum \<Rightarrow> jsnum" where
  "jsSqrt (Num a) = (if a < 0 then NaN else Num (sqrt a))"
| "jsSqrt PosInf = PosInf"
| "jsSqrt NegInf = NaN"
| "jsSqrt NaN = NaN"

fun jsLess :: "jsnum \<Rightarrow> jsnum \<Rightarrow> bool" where
  "jsLess (Num a) (Num b) = (a < b)"
| "jsLess (Num a) PosInf = True"
| "jsLess (Num a) NegInf = False"
| "jsLess (Num a) NaN = False"
| "jsLess PosInf y = False"
| "jsLess NegInf (Num b) = True"
| "jsLess NegInf PosInf = True"
| "jsLess NegInf NegInf = False"
| "jsLess NegInf NaN = False"
| "jsLess NaN y = False"

definition jsStrictEquals :: "jsnum \<Rightarrow> jsnum \<Rightarrow> bool" where
  "jsStrictEquals x y \<longleftrightarrow> x \<noteq> NaN \<and> x = y"

text \<open>
  The rendering that the concrete inputs below use for \<open>toFixed(1)\<close>. For a finite
  value it is the decimal rendering with one digit after the point: the decimal digits of
  the integer \<open>n\<close> nearest to \<open>10 * x\<close> (the larger one on a tie), padded to two digits,
  with a point before the last digit, and a minus sign for a negative \<open>x\<close>. This is what
  \<open>Number.prototype.toFixed(1)\<close> prints for a value below \<open>10\<^sup>2\<^sup>1\<close> that the double holds
  exactly, such as the z-score 116 of the backtest trade on a cold market. The other
  values are printed by their names.
\<close>

function natToDecimal :: "nat \<Rightarrow> string" where
  "natToDecimal n =
     (if n < 10 then [''0123456789'' ! n]
      else natToDecimal (n div 10) @ [''0123456789'' ! (n mod 10)])"
  by pat_completeness auto
termination
  by (relation "measure id") auto

declare natToDecimal.simps [simp del]

definition toFixed1Abs :: "real \<Rightarrow> string" where
  "toFixed1Abs x =
     (let n = nat \<lfloor>x * 10 + 1 / 2\<rfloor>;
          m = natToDecimal n;
          m' = (if length m \<le> 1 then replicate (2 - length m) (CHR ''0'') @ m else m);
          k = length m'
      in take (k - 1) m' @ ''.'' @ drop (k - 1) m')"

definition toFixed1 :: "jsnum \<Rightarrow> string" where
  "toFixed1 z =
     (case z of
        Num x \<Rightarrow> if x < 0 then ''-'' @ toFixed1Abs (- x) else toFixed1Abs x
      | PosInf \<Rightarrow> ''Infinity''
      | NegInf \<Rightarrow> ''-Infinity''
      | NaN \<Rightarrow> ''NaN'')"

subsection \<open>The z-score and the scorer\<close>

text \<open>A \<open>MarketStats\<close> object whose fields are any JavaScript numbers.\<close>

record JsMarketStats =
  js_count :: jsnum
  js_meanSize :: jsnum
  js_m2Size :: jsnum
  js_lastUpdate :: jsnum

text \<open>
  \<open>calculateDynamicZScore(size, stats?)\<close>. \<open>!stats\<close> holds for the absent argument
  only.
\<close>

definition calculateDynamicZScore :: "jsnum \<Rightarrow> JsMarketStats option \<Rightarrow> jsnum" where
  "calculateDynamicZScore sz stats =
     (case stats of
        None \<Rightarrow> jsDiv (jsSub sz (Num 200)) (Num 300)
      | Some s \<Rightarrow>
          if jsLess (js_count s) (Num 5) then jsDiv (jsSub sz (Num 200)) (Num 300)
          else
            let stdDev = jsSqrt (jsDiv (js_m2Size s) (js_count s))
            in if jsStrictEquals stdDev (Num 0) then Num 0
               else jsDiv (jsSub sz (js_meanSize s)) stdDev)"

text \<open>
  The statistics of the tracker, whose fields are finite numbers, as the object handed to
  \<open>calculateDynamicZScore\<close>.
\<close>

definition statsAsJs :: "MarketStats \<Rightarrow> JsMarketStats" where
  "statsAsJs s =
     \<lparr>js_count = Num (real (count s)), js_meanSize = Num (meanSize s),
      js_m2Size = Num (m2Size s), js_lastUpdate = Num (real_of_int (lastUpdate s))\<rparr>"

definition knownInsider :: string where
  "knownInsider = ''0x31a56e9E690c621eD21De08Cb559e9524Cdb8eD9''"

text \<open>
  \<open>analyzeTradeHeuristics(trade, market, stats?, isWhale?)\<close>: five tests in the order of
  the source, each adding to \<open>baseScore\<close> and pushing its tag. The trade and the
  statistics hold finite numbers; the z-score computed from them is a JavaScript number,
  and no comparison with NaN holds. An absent \<open>isWhale\<close> is falsy.

  The digits that \<open>zScore.toFixed(1)\<close> prints are those of the double the code holds,
  which exact arithmetic does not determine: on a cold market a trade of size 1115 has
  the z-score 3.05, the double computed for it lies just below and prints as 3.0. The
  rendering is therefore the first argument of the scorer, which calls it on the z-score.
\<close>

definition analyzeTradeHeuristics ::
    "(jsnum \<Rightarrow> string) \<Rightarrow> Trade \<Rightarrow> PolymarketMarket \<Rightarrow> MarketStats option \<Rightarrow> bool option
       \<Rightarrow> int \<times> string list" where
  "analyzeTradeHeuristics toFixed trade market stats isWhale =
     (let acc0 = (0, []);
          zScore = calculateDynamicZScore (Num (trade_size trade)) (map_option statsAsJs stats);
          acc1 = (if jsLess (Num 3) zScore
                  then (fst acc0 + 35, snd acc0 @ [''High Size Z='' @ toFixed zScore])
                  else acc0);
          acc2 = (if liquidity market > 0 \<and> trade_size trade / liquidity market > 1 / 100
                  then (fst acc1 + 25, snd acc1 @ [''Significant Liquidity Impact''])
                  else acc1);
          acc3 = (if price trade < 20 / 100 \<and> trade_size trade > 200
                  then (fst acc2 + 20, snd acc2 @ [''Speculative Accumulation''])
                  else acc2);
          acc4 = (if isWhale = Some True
                  then (fst acc3 + 30, snd acc3 @ [''Verified Whale Activity''])
                  else acc3);
          acc5 = (if toLowerCase (makerAddress trade) = toLowerCase knownInsider
                  then (fst acc4 + 50, snd acc4 @ [''Blacklisted/Known Insider''])
                  else acc4)
      in acc5)"



text \<open>\<open>generateBacktestScenario()\<close>; the argument is the reading of \<open>Date.now()\<close>.\<close>

definition generateBacktestScenario :: "int \<Rightarrow> Trade" where
  "generateBacktestScenario now =
     \<lparr>trade_id = ''sim-maduro-whale'',
      marketId = ''0x4b7e56993f4e304602f90119109002231b67039031c6e10817094033324546'',
      marketQuestion = ''[DEMO] Venezuelan Election 2024 Winner?'',
      outcomeIndex = 0,
      outcomeLabel = ''Maduro'',
      side = BUY,
      price = 12 / 100,
      trade_size = 35000,
      timestamp = now - 14400000,
      makerAddress = ''0x31a56e9E690c621eD21De08Cb559e9524Cdb8eD9'',
      transactionHash = ''0xBacktestScenarioHash123''\<rparr>"

section \<open>External collaborators (polymarketService.ts, geminiService.ts)\<close>

record WalletStats =
  totalTrades :: int
  winRate :: real
  accountAgeDays :: real

record AlertWalletStats = WalletStats +
  isWhale :: bool

text \<open>
  A value that \<open>JSON.parse\<close> returns for the analyzer's reply, seen through the four
  properties the code reads of it. The cast to \<open>GeminiAnalysisResponse\<close> checks nothing:
  each property is present with a value of its declared type, or absent (\<open>undefined\<close>), as
  all four are on \<open>{}\<close>, \<open>[]\<close>, \<open>42\<close> or a string. Reading a property of \<open>null\<close> throws.
  A property holding a value of another type than declared is left out of the model.
\<close>

record GeminiAnalysisResponse =
  analysis_score :: "real option"
  analysis_reasoning :: "string option"
  analysis_factors :: "string list option"
  riskLevel :: "SuspicionLevel option"

datatype ParsedJson = JsonNull | JsonValue GeminiAnalysisResponse

datatype error = TypeError

text \<open>
  \<open>fetchMarketWhales\<close>: the empty list in simulation mode or when the request fails
  (\<open>None\<close>), else the first ten holder addresses in lower case.
\<close>

definition fetchMarketWhales :: "bool \<Rightarrow> string list option \<Rightarrow> string list" where
  "fetchMarketWhales useSimulation holders =
     (if useSimulation then []
      else (case holders of
              None \<Rightarrow> []
            | Some hs \<Rightarrow> map toLowerCase (take 10 hs)))"

text \<open>
  \<open>fetchWalletStats\<close>: fixed figures in simulation mode; otherwise the age of the
  first recorded activity (its time stamp in seconds or milliseconds), or \<open>undefined\<close>
  when the request fails or lists no activity.
\<close>

definition fetchWalletStats :: "bool \<Rightarrow> int \<Rightarrow> real option \<Rightarrow> WalletStats option" where
  "fetchWalletStats useSimulation now firstActivity =
     (if useSimulation
      then Some \<lparr>totalTrades = 50, winRate = 65 / 100, accountAgeDays = 2\<rparr>
      else (case firstActivity of
              None \<Rightarrow> None
            | Some ts \<Rightarrow>
                let firstSeen = (if ts < 10000000000 then ts * 1000 else ts)
                in Some \<lparr>totalTrades = - 1, winRate = 0,
                         accountAgeDays = (real_of_int now - firstSeen) / 86400000\<rparr>))"

text \<open>
  What the \<open>try\<close> block of \<open>analyzeSuspicion\<close> meets: the request is rejected, the
  response has no text (\<open>throw new Error("No response from Gemini")\<close>), \<open>JSON.parse\<close>
  throws on the cleaned text, or the text parses to a value, which is returned as it
  is, whatever its shape.
\<close>

datatype GeminiOutcome =
    CallRejected
  | EmptyText
  | InvalidJson
  | Parsed ParsedJson

text \<open>The \<open>catch\<close> block, the same in both versions of the service.\<close>

definition fallbackAnalysis :: "string list \<Rightarrow> GeminiAnalysisResponse" where
  "fallbackAnalysis preliminaryFactors =
     (let heuristicScore = int (length preliminaryFactors) * 15
      in \<lparr>analysis_score = Some (real_of_int (min 50 heuristicScore)),
          analysis_reasoning = Some ''AI Unavailable - Heuristic Estimate Only'',
          analysis_factors = Some (take 3 preliminaryFactors),
          riskLevel = Some (if heuristicScore > 60 then HIGH else MEDIUM)\<rparr>)"

definition tryAnalysis :: "GeminiOutcome \<Rightarrow> string list \<Rightarrow> ParsedJson" where
  "tryAnalysis remote preliminaryFactors =
     (case remote of
        Parsed v \<Rightarrow> v
      | _ \<Rightarrow> JsonValue (fallbackAnalysis preliminaryFactors))"

type_synonym Analyzer =
  "GeminiOutcome \<Rightarrow> Trade \<Rightarrow> PolymarketMarket \<Rightarrow> string list \<Rightarrow> WalletStats option
     \<Rightarrow> error + ParsedJson"

text \<open>
  \<open>analyzeSuspicion\<close> of src/services/geminiService.ts. The prompt is built before the
  \<open>try\<close> with \<open>walletStats ? walletStats.accountAgeDays + ' days' : 'Unknown'\<close>, which
  cannot throw.
\<close>

definition analyzeSuspicion :: Analyzer where
  "analyzeSuspicion remote trade market preliminaryFactors walletStats =
     Inr (tryAnalysis remote preliminaryFactors)"

text \<open>
  \<open>analyzeSuspicion\<close> of the other four-argument version of the service (the one whose
  prompt is headed FACTS JSON). Its prompt reads \<open>walletStats.accountAgeDays\<close> without
  a test, before the \<open>try\<close>: on \<open>undefined\<close> this is a TypeError that no handler of the
  function catches.
\<close>

definition analyzeSuspicionFactsJson :: Analyzer where
  "analyzeSuspicionFactsJson remote trade market preliminaryFactors walletStats =
     (case walletStats of
        None \<Rightarrow> Inl TypeError
      | Some w \<Rightarrow> Inr (tryAnalysis remote preliminaryFactors))"

section \<open>Score fusion and evaluation of one trade (App.tsx, evaluateTrade)\<close>

text \<open>
  An alert as \<open>evaluateTrade\<close> builds it: the score is an integer or NaN (\<open>None\<close>), and
  the reasoning is copied from the reply, where it may be absent.
\<close>

record SuspiciousActivity =
  alert_id :: string
  alert_trade :: Trade
  suspicionScore :: "int option"
  level :: SuspicionLevel
  reasoning :: "string option"
  factors :: "string list"
  walletStats :: "AlertWalletStats option"

text \<open>
  The fusion lines of \<open>evaluateTrade\<close>: the level is read off the average
  \<open>finalScore\<close> itself, and the alert stores \<open>Math.round(finalScore)\<close>, which rounds a
  half upwards.
\<close>

definition levelOf :: "real \<Rightarrow> SuspicionLevel" where
  "levelOf finalScore =
     (if finalScore > 85 then CRITICAL
      else if finalScore > 65 then HIGH
      else if finalScore > 40 then MEDIUM
      else LOW)"

definition fuse :: "int \<Rightarrow> real \<Rightarrow> int \<times> SuspicionLevel" where
  "fuse baseScore analyzerScore =
     (let finalScore = (real_of_int baseScore + analyzerScore) / 2
      in (\<lfloor>finalScore + 1 / 2\<rfloor>, levelOf finalScore))"

text \<open>\<open>Array.from(new Set(xs))\<close>: the first occurrence of every element, in order.\<close>

fun uniqueInOrder :: "'a list \<Rightarrow> 'a list \<Rightarrow> 'a list" where
  "uniqueInOrder seen [] = []"
| "uniqueInOrder seen (x # xs) =
     (if x \<in> set seen then uniqueInOrder seen xs else x # uniqueInOrder (x # seen) xs)"

text \<open>
  The state the component keeps in refs, with a log of the calls made to the external
  collaborators, and the answers the environment gives during one evaluation: those of
  the collaborators, the reading of the clock, and what \<open>toFixed(1)\<close> prints for the
  z-score.
\<close>

datatype OracleCall = WhalesCall string | WalletCall string | AnalyzerCall string

record PipelineState =
  processedTradeIds :: "string set"
  marketStatsRef :: StatsMap
  oracleCalls :: "OracleCall list"

record Oracles =
  simulationMode :: bool
  clock :: int
  holders :: "string list option"
  firstActivity :: "real option"
  gemini :: GeminiOutcome
  zFixed :: "jsnum \<Rightarrow> string"

text \<open>
  The lines of \<open>evaluateTrade\<close> between the gate and the threshold test: marking the
  id, the statistics update, the whale lookup (live mode only) and the heuristic scorer,
  which is given the snapshot returned by \<open>updateMarketStats\<close>. They run on a trade
  that passed the gate and yield that snapshot, the whale flag, the scorer's result and the
  new state.
\<close>

definition scoringStage ::
    "Oracles \<Rightarrow> Trade \<Rightarrow> PolymarketMarket \<Rightarrow> PipelineState
       \<Rightarrow> MarketStats \<times> bool \<times> (int \<times> string list) \<times> PipelineState" where
  "scoringStage env trade market st =
     (let st1 = st\<lparr>processedTradeIds := insert (trade_id trade) (processedTradeIds st)\<rparr>;
          upd = updateMarketStats (clock env) (market_id market) (trade_size trade)
                  (marketStatsRef st1);
          stats = fst upd;
          st2 = st1\<lparr>marketStatsRef := snd upd\<rparr>;
          whale = (if \<not> simulationMode env
                   then toLowerCase (makerAddress trade)
                          \<in> set (fetchMarketWhales (simulationMode env) (holders env))
                   else False);
          st3 = (if \<not> simulationMode env
                 then st2\<lparr>oracleCalls := oracleCalls st2 @ [WhalesCall (market_id market)]\<rparr>
                 else st2)
      in (stats, whale,
          analyzeTradeHeuristics (zFixed env) trade market (Some stats) (Some whale), st3))"

text \<open>
  \<open>evaluateTrade(trade, market)\<close>; the first argument is the imported
  \<open>analyzeSuspicion\<close>. \<open>Inl\<close> is a rejected promise. The gate, the marking and the
  statistics update run before the first \<open>await\<close>.

  The reply is used as it comes. Reading \<open>analysis.suspicionScore\<close> of \<open>null\<close> throws
  a TypeError, and so does spreading an absent \<open>analysis.factors\<close>. An absent
  \<open>suspicionScore\<close> makes \<open>finalScore\<close> NaN: no comparison with it holds, so the level
  stays LOW, and \<open>Math.round\<close> of it is NaN.
\<close>

definition evaluateTrade ::
    "Analyzer \<Rightarrow> Oracles \<Rightarrow> Trade \<Rightarrow> PolymarketMarket \<Rightarrow> PipelineState
       \<Rightarrow> (error + SuspiciousActivity option) \<times> PipelineState" where
  "evaluateTrade analyze env trade market st =
     (if trade_id trade \<in> processedTradeIds st then (Inr None, st)
      else
        case scoringStage env trade market st of
          (stats, whale, (baseScore, hfactors), st3) \<Rightarrow>
            if baseScore > 10
            then
              let realWalletStats =
                    fetchWalletStats (simulationMode env) (clock env) (firstActivity env);
                  st4 = st3\<lparr>oracleCalls := oracleCalls st3 @
                           [WalletCall (makerAddress trade), AnalyzerCall (trade_id trade)]\<rparr>
              in (case analyze (gemini env) trade market hfactors realWalletStats of
                    Inl e \<Rightarrow> (Inl e, st4)
                  | Inr JsonNull \<Rightarrow> (Inl TypeError, st4)
                  | Inr (JsonValue analysis) \<Rightarrow>
                      (case analysis_factors analysis of
                         None \<Rightarrow> (Inl TypeError, st4)
                       | Some analysisFactors \<Rightarrow>
                           (Inr (Some
                              \<lparr>alert_id = trade_id trade,
                               alert_trade = trade,
                               suspicionScore =
                                 (case analysis_score analysis of
                                    None \<Rightarrow> None
                                  | Some a \<Rightarrow> Some (fst (fuse baseScore a))),
                               level =
                                 (case analysis_score analysis of
                                    None \<Rightarrow> LOW
                                  | Some a \<Rightarrow> snd (fuse baseScore a)),
                               reasoning = analysis_reasoning analysis,
                               factors = uniqueInOrder [] (hfactors @ analysisFactors),
                               walletStats =
                                 (case realWalletStats of
                                    None \<Rightarrow> None
                                  | Some w \<Rightarrow>
                                      Some (WalletStats.extend w \<lparr>isWhale = whale\<rparr>))\<rparr>),
                            st4)))
            else (Inr None, st3))"

text \<open>
  The z-score as the specification words it: against the statistics of the market before
  the trade is added to them.
\<close>

definition preUpdateZScore :: "real \<Rightarrow> MarketStats \<Rightarrow> real" where
  "preUpdateZScore sz pre =
     (if count pre < 5 then (sz - 200) / 300
      else (sz - meanSize pre) / sqrt (m2Size pre / real (count pre)))"

section \<open>Alert ledger (App.tsx, the update passed to setAlerts in runCycle)\<close>








section \<open>Bounded concurrent evaluator (App.tsx, processQueue)\<close>

text \<open>
  \<open>processQueue(items, fn, concurrency)\<close> starts \<open>min(items.length, concurrency)\<close>
  workers over one shared queue and awaits them all. JavaScript runs a worker without
  interruption up to its \<open>await\<close>, so a run is an interleaving of three kinds of steps:
  a ready worker shifts the next item off the queue and calls \<open>fn\<close> on it; a ready
  worker that finds the queue empty leaves its loop; a worker that awaits \<open>fn(item)\<close>
  resumes when that promise settles, pushes a truthy result, drops a falsy one and
  swallows a rejection in its \<open>catch\<close>.

  The call \<open>fn(item)\<close> acts on the shared state at once (for \<open>evaluateTrade\<close> the gate,
  the marking and the statistics update come before its first \<open>await\<close>) and fixes how
  its promise will settle. The items are objects, so \<open>if (item)\<close> holds for each.
\<close>

datatype 'r Settlement = Rejected error | Fulfilled "'r option"

datatype 'r Worker = Ready | Awaiting "'r Settlement" | Finished

record ('a, 'r, 's) Pool =
  queue :: "'a list"
  workers :: "'r Worker list"
  results :: "'r list"
  shared :: 's

definition pushed :: "'r Settlement \<Rightarrow> 'r list" where
  "pushed outcome = (case outcome of Fulfilled (Some r) \<Rightarrow> [r] | _ \<Rightarrow> [])"

definition startPool :: "'a list \<Rightarrow> nat \<Rightarrow> 's \<Rightarrow> ('a, 'r, 's) Pool" where
  "startPool items concurrency s =
     \<lparr>queue = items,
      workers = replicate (min (length items) concurrency) Ready,
      results = [],
      shared = s\<rparr>"

inductive poolStep ::
    "('a \<Rightarrow> 's \<Rightarrow> 'r Settlement \<times> 's) \<Rightarrow> ('a, 'r, 's) Pool \<Rightarrow> ('a, 'r, 's) Pool \<Rightarrow> bool"
  for fn :: "'a \<Rightarrow> 's \<Rightarrow> 'r Settlement \<times> 's" where
  shift:
    "\<lbrakk>i < length (workers c); workers c ! i = Ready; queue c = item # rest\<rbrakk>
     \<Longrightarrow> poolStep fn c
           (c\<lparr>queue := rest,
              workers := (workers c)[i := Awaiting (fst (fn item (shared c)))],
              shared := snd (fn item (shared c))\<rparr>)"
| leave:
    "\<lbrakk>i < length (workers c); workers c ! i = Ready; queue c = []\<rbrakk>
     \<Longrightarrow> poolStep fn c (c\<lparr>workers := (workers c)[i := Finished]\<rparr>)"
| settle:
    "\<lbrakk>i < length (workers c); workers c ! i = Awaiting outcome\<rbrakk>
     \<Longrightarrow> poolStep fn c
           (c\<lparr>workers := (workers c)[i := Ready],
              results := results c @ pushed outcome\<rparr>)"

text \<open>\<open>Promise.all\<close> resolves, and \<open>processQueue\<close> returns, when every worker has left.\<close>

definition allLeft :: "('a, 'r, 's) Pool \<Rightarrow> bool" where
  "allLeft c \<longleftrightarrow> list_all (\<lambda>w. w = Finished) (workers c)"

definition processQueueReturns ::
    "('a \<Rightarrow> 's \<Rightarrow> 'r Settlement \<times> 's) \<Rightarrow> 'a list \<Rightarrow> nat \<Rightarrow> 's \<Rightarrow> 'r list \<Rightarrow> 's \<Rightarrow> bool" where
  "processQueueReturns fn items concurrency s rs s' \<longleftrightarrow>
     (\<exists>c. (poolStep fn)\<^sup>*\<^sup>* (startPool items concurrency s) c \<and> allLeft c \<and>
          results c = rs \<and> shared c = s')"

text \<open>The calls of \<open>fn\<close> in queue order: how each promise settles, and the state left.\<close>

fun callAll :: "('a \<Rightarrow> 's \<Rightarrow> 'r Settlement \<times> 's) \<Rightarrow> 'a list \<Rightarrow> 's \<Rightarrow> 'r Settlement list \<times> 's" where
  "callAll fn [] s = ([], s)"
| "callAll fn (item # rest) s =
     (let r = fn item s; rs = callAll fn rest (snd r) in (fst r # fst rs, snd rs))"

text \<open>A bound on the number of steps a pool can still take.\<close>

fun workerWeight :: "'r Worker \<Rightarrow> nat" where
  "workerWeight Ready = 1"
| "workerWeight (Awaiting outcome) = 2"
| "workerWeight Finished = 0"

definition poolWeight :: "('a, 'r, 's) Pool \<Rightarrow> nat" where
  "poolWeight c = 3 * length (queue c) + sum_list (map workerWeight (workers c))"

text \<open>
  What holds of every pool a run can reach: the items already shifted off the queue are a
  prefix of the input, the shared state is the one their calls have left, every result
  they pushed or will push is either in the result list or still awaited by a worker, and
  no worker has left while items remain.
\<close>

fun pendingOf :: "'r Worker \<Rightarrow> 'r list" where
  "pendingOf (Awaiting outcome) = pushed outcome"
| "pendingOf Ready = []"
| "pendingOf Finished = []"

definition poolInv ::
    "('a \<Rightarrow> 's \<Rightarrow> 'r Settlement \<times> 's) \<Rightarrow> 'a list \<Rightarrow> nat \<Rightarrow> 's \<Rightarrow> ('a, 'r, 's) Pool \<Rightarrow> bool" where
  "poolInv fn items concurrency s c \<longleftrightarrow>
     (\<exists>called.
        items = called @ queue c \<and>
        shared c = snd (callAll fn called s) \<and>
        mset (results c) + mset (concat (map pendingOf (workers c))) =
          mset (concat (map pushed (fst (callAll fn called s))))) \<and>
     length (workers c) = min (length items) concurrency \<and>
     (Finished \<in> set (workers c) \<longrightarrow> queue c = [])"

text \<open>
  The function \<open>runCycle\<close> passes to \<open>processQueue\<close>: look the market of the trade up
  and evaluate the trade, or resolve to \<open>null\<close> when the market is not tracked. The
  answers of the collaborators are given for each trade.
\<close>

definition evaluateCandidate ::
    "Analyzer \<Rightarrow> (Trade \<Rightarrow> Oracles) \<Rightarrow> PolymarketMarket list \<Rightarrow> Trade \<Rightarrow> PipelineState
       \<Rightarrow> SuspiciousActivity Settlement \<times> PipelineState" where
  "evaluateCandidate analyze answers currentMarkets trade st =
     (case find (\<lambda>m. market_id m = marketId trade) currentMarkets of
        None \<Rightarrow> (Fulfilled None, st)
      | Some market \<Rightarrow>
          (case evaluateTrade analyze (answers trade) trade market st of
             (Inl e, st') \<Rightarrow> (Rejected e, st')
           | (Inr r, st') \<Rightarrow> (Fulfilled r, st')))"

text \<open>Evaluations one after another, as successive calls of \<open>evaluateTrade\<close> make them.\<close>

fun evaluateAll ::
    "Analyzer \<Rightarrow> (Oracles \<times> Trade \<times> PolymarketMarket) list \<Rightarrow> PipelineState
       \<Rightarrow> (error + SuspiciousActivity option) list \<times> PipelineState" where
  "evaluateAll analyze [] st = ([], st)"
| "evaluateAll analyze ((env, trade, market) # rest) st =
     (let r = evaluateTrade analyze env trade market st;
          rs = evaluateAll analyze rest (snd r)
      in (fst r # fst rs, snd rs))"

definition alertsOf :: "(error + SuspiciousActivity option) list \<Rightarrow> SuspiciousActivity list" where
  "alertsOf rs = concat (map (\<lambda>r. case r of Inr (Some a) \<Rightarrow> [a] | _ \<Rightarrow> []) rs)"

section \<open>The component over its lifetime (App.tsx)\<close>



section \<open>Concrete inputs\<close>

text \<open>
  A market that has seen eight trades of sizes 99 and 101, a ninth trade of size 121 on
  it, and the demonstration market with liquidity 450000.
\<close>

definition deepMarket :: PolymarketMarket where
  "deepMarket =
     \<lparr>market_id = ''mkt'', gammaId = ''7'', question = ''Rate cut in September?'',
      slug = ''rate-cut'', endDate = ''2024-09-18'', volume = 52000000, liquidity = 1200000,
      outcomes = [''Yes'', ''No''], outcomePrices = [''0.65'', ''0.35'']\<rparr>"

definition steadySizes :: "(int \<times> string \<times> real) list" where
  "steadySizes =
     [(1, ''mkt'', 99), (2, ''mkt'', 101), (3, ''mkt'', 99), (4, ''mkt'', 101),
      (5, ''mkt'', 99), (6, ''mkt'', 101), (7, ''mkt'', 99), (8, ''mkt'', 101)]"

definition steadyState :: PipelineState where
  "steadyState =
     \<lparr>processedTradeIds = {''t1'', ''t2'', ''t3'', ''t4'', ''t5'', ''t6'', ''t7'', ''t8''},
      marketStatsRef = feedTrades steadySizes Map.empty,
      oracleCalls = []\<rparr>"

definition spikeTrade :: Trade where
  "spikeTrade =
     \<lparr>trade_id = ''t9'', marketId = ''mkt'', marketQuestion = ''Rate cut in September?'',
      outcomeIndex = 0, outcomeLabel = ''Yes'', side = BUY, price = 1 / 2, trade_size = 121,
      timestamp = 9, makerAddress = ''0xabc'', transactionHash = ''0x09''\<rparr>"

definition demoOracles :: Oracles where
  "demoOracles =
     \<lparr>simulationMode = True, clock = 9, holders = None, firstActivity = None,
      gemini = CallRejected, zFixed = toFixed1\<rparr>"

definition liveOracles :: Oracles where
  "liveOracles =
     \<lparr>simulationMode = False, clock = 9, holders = None, firstActivity = None,
      gemini = CallRejected, zFixed = toFixed1\<rparr>"

definition scenarioMarket :: PolymarketMarket where
  "scenarioMarket =
     \<lparr>market_id = ''mock-1'', gammaId = ''1'',
      question = ''Venezuelan Presidential Election 2024 Winner?'',
      slug = ''venezuela-election-2024'', endDate = ''2024-12-31'', volume = 15420000,
      liquidity = 450000, outcomes = [''Maduro'', ''Gonzalez'', ''Other''],
      outcomePrices = [''0.22'', ''0.75'', ''0.03'']\<rparr>"

definition freshState :: PipelineState where
  "freshState = \<lparr>processedTradeIds = {}, marketStatsRef = Map.empty, oracleCalls = []\<rparr>"

text \<open>
  Two candidates of one live cycle on the market above: for the first, from the
  denylisted address, the wallet request fails; for the second it succeeds.
\<close>

definition insiderTrade :: Trade where
  "insiderTrade =
     spikeTrade\<lparr>trade_id := ''t10'', price := 1 / 10, trade_size := 300,
                makerAddress := knownInsider\<rparr>"

definition plainTrade :: Trade where
  "plainTrade = spikeTrade\<lparr>trade_id := ''t11'', price := 1 / 10, trade_size := 300\<rparr>"

definition walletAnswers :: "Trade \<Rightarrow> Oracles" where
  "walletAnswers trade =
     (if trade_id trade = ''t10'' then liveOracles
      else liveOracles\<lparr>firstActivity := Some 1000\<rparr>)"

definition cycleFn ::
    "Trade \<Rightarrow> PipelineState \<Rightarrow> SuspiciousActivity Settlement \<times> PipelineState" where
  "cycleFn = evaluateCandidate analyzeSuspicionFactsJson walletAnswers [deepMarket]"








text \<open>
  After the observations \<open>xs\<close> the recurrence holds their number, their mean and the sum
  of squared deviations, here written with the sum \<open>S\<close> and the sum of squares \<open>Q\<close>
  as \<open>(n * Q - S\<^sup>2) / n\<close>.
\<close>

definition welfordInv :: "real list \<Rightarrow> MarketStats \<Rightarrow> bool" where
  "welfordInv xs s \<longleftrightarrow>
     count s = length xs \<and>
     (if xs = [] then meanSize s = 0 \<and> m2Size s = 0
      else meanSize s = sum_list xs / real (length xs) \<and>
           m2Size s =
             (real (length xs) * (\<Sum>y\<leftarrow>xs. y\<^sup>2) - (sum_list xs)\<^sup>2) / real (length xs))"

section \<open>Properties of the running statistics tracker\<close>

lemma welford_mean_algebra:
  fixes n S x :: real
  assumes "0 < n"
  shows "S / n + (x - S / n) / (n + 1) = (S + x) / (n + 1)"
proof -
  have n1: "n + 1 \<noteq> 0" and n0: "n \<noteq> 0" using assms by auto
  have "(S / n + (x - S / n) / (n + 1)) * (n + 1) = S / n * (n + 1) + (x - S / n)"
    using n1 by (simp add: distrib_right)
  also have "\<dots> = S / n * n + x"
    by (simp add: distrib_left)
  also have "\<dots> = S + x"
    using n0 by simp
  finally show ?thesis
    using n1 by (simp add: eq_divide_eq)
qed

lemma welford_m2_algebra:
  fixes n S Q x :: real
  assumes "0 < n"
  shows "(n * Q - S\<^sup>2) / n + (x - S / n) * (x - (S / n + (x - S / n) / (n + 1)))
         = ((n + 1) * (Q + x\<^sup>2) - (S + x)\<^sup>2) / (n + 1)"
proof -
  have n1: "n + 1 \<noteq> 0" and n0: "n \<noteq> 0" using assms by auto
  define a where "a = S / n"
  have S: "S = a * n" using n0 by (simp add: a_def)
  define d where "d = (x - a) / (n + 1)"
  have x: "x = a + d * (n + 1)" using n1 by (simp add: d_def)
  have l: "(n * Q - S\<^sup>2) / n = Q - a\<^sup>2 * n"
    using n0 by (simp add: S power2_eq_square field_simps)
  have "((n * Q - S\<^sup>2) / n + (x - a) * (x - (a + (x - a) / (n + 1)))) * (n + 1)
         = (n + 1) * (Q + x\<^sup>2) - (S + x)\<^sup>2"
    unfolding l unfolding d_def [symmetric]
    by (simp add: x S power2_eq_square algebra_simps)
  then show ?thesis
    using n1 by (simp add: a_def eq_divide_eq)
qed

lemma welfordInv_step:
  assumes "welfordInv xs s"
  shows "welfordInv (xs @ [x]) (welfordStep now s x)"
proof (cases "xs = []")
  case True
  with assms show ?thesis
    by (simp add: welfordInv_def welfordStep_def Let_def power2_eq_square)
next
  case False
  define n where "n = real (length xs)"
  have npos: "0 < n" using False by (simp add: n_def)
  have mu: "meanSize s = sum_list xs / n"
    and m2: "m2Size s = (n * (\<Sum>y\<leftarrow>xs. y\<^sup>2) - (sum_list xs)\<^sup>2) / n"
    and cnt: "count s = length xs"
    using assms False by (simp_all add: welfordInv_def n_def)
  have c': "real (count s + 1) = n + 1" and len: "real (length (xs @ [x])) = n + 1"
    using cnt by (simp_all add: n_def)
  have mean': "meanSize (welfordStep now s x) = (sum_list xs + x) / (n + 1)"
    unfolding welfordStep_def Let_def c' mu
    using welford_mean_algebra [OF npos] by simp
  have m2': "m2Size (welfordStep now s x) =
      ((n + 1) * ((\<Sum>y\<leftarrow>xs. y\<^sup>2) + x\<^sup>2) - (sum_list xs + x)\<^sup>2) / (n + 1)"
    unfolding welfordStep_def Let_def c' mu m2
    using welford_m2_algebra [OF npos] by simp
  have cnt': "count (welfordStep now s x) = length (xs @ [x])"
    using cnt by (simp add: welfordStep_def Let_def)
  show ?thesis
    unfolding welfordInv_def len using cnt' mean' m2' by simp
qed

lemma statsOrDefault_update [simp]:
  "statsOrDefault now' (snd (updateMarketStats now mid x m)) mid =
     welfordStep now (statsOrDefault now m mid) x"
  by (simp add: updateMarketStats_def statsOrDefault_def Let_def)

lemma welfordInv_now:
  "welfordInv xs (statsOrDefault now m mid) \<Longrightarrow> welfordInv xs (statsOrDefault now' m mid)"
  by (simp add: welfordInv_def statsOrDefault_def split: option.splits)

lemma statsOrDefault_update_other:
  "k \<noteq> mid \<Longrightarrow>
   statsOrDefault now' (snd (updateMarketStats now k x m)) mid = statsOrDefault now' m mid"
  by (simp add: updateMarketStats_def statsOrDefault_def Let_def)

lemma welfordInv_feedTrades:
  "welfordInv xs (statsOrDefault now m mid) \<Longrightarrow>
   welfordInv (xs @ sizesOf mid obs) (statsOrDefault now (feedTrades obs m) mid)"
proof (induction obs arbitrary: m xs)
  case Nil
  then show ?case by (simp add: sizesOf_def)
next
  case (Cons ob obs)
  obtain t k x where ob: "ob = (t, k, x)" by (cases ob)
  show ?case
  proof (cases "k = mid")
    case True
    have "welfordInv (xs @ [x]) (welfordStep t (statsOrDefault t m mid) x)"
      using Cons.prems by (intro welfordInv_step) (rule welfordInv_now)
    then have "welfordInv (xs @ [x])
        (statsOrDefault now (snd (updateMarketStats t mid x m)) mid)"
      by simp
    from Cons.IH [OF this] show ?thesis
      by (simp add: ob True sizesOf_def)
  next
    case False
    have "welfordInv xs (statsOrDefault now (snd (updateMarketStats t k x m)) mid)"
      using Cons.prems False by (simp add: statsOrDefault_update_other)
    from Cons.IH [OF this] show ?thesis
      using False by (simp add: ob sizesOf_def)
  qed
qed

lemma sum_sq_dev:
  fixes c :: real
  shows "(\<Sum>y\<leftarrow>xs. (y - c)\<^sup>2) =
         (\<Sum>y\<leftarrow>xs. y\<^sup>2) - 2 * c * sum_list xs + real (length xs) * c\<^sup>2"
  by (induction xs) (simp_all add: power2_eq_square algebra_simps)

lemma batchVariance_alt:
  assumes "xs \<noteq> []"
  shows "batchVariance xs =
     (real (length xs) * (\<Sum>y\<leftarrow>xs. y\<^sup>2) - (sum_list xs)\<^sup>2) / real (length xs)
       / real (length xs)"
proof -
  define n where "n = real (length xs)"
  have n0: "n \<noteq> 0" using assms by (simp add: n_def)
  have "(\<Sum>y\<leftarrow>xs. (y - sum_list xs / n)\<^sup>2) =
        (n * (\<Sum>y\<leftarrow>xs. y\<^sup>2) - (sum_list xs)\<^sup>2) / n"
    unfolding sum_sq_dev n_def [symmetric]
    using n0 by (simp add: power2_eq_square field_simps)
  then show ?thesis
    by (simp add: batchVariance_def batchMean_def n_def)
qed

text \<open>
  C1. Starting from a store that has no entry for the market, after any sequence of
  updates (of this market and of others, in any interleaving) the snapshot returned by a
  further update for the market is the one stored, its count is the number of sizes
  observed for the market, its mean is their arithmetic mean and \<open>m2Size / count\<close> is
  their population variance (over the reals). The first update starts from count 0,
  mean 0 and M2 0, and every update is one Welford step.
\<close>

theorem welford_matches_batch:
  assumes "m mid = None"
  shows "case updateMarketStats now mid x (feedTrades obs m) of
           (snap, m') \<Rightarrow>
             m' mid = Some snap \<and>
             snap = welfordStep now (statsOrDefault now (feedTrades obs m) mid) x \<and>
             statsOrDefault now m mid =
               \<lparr>count = 0, meanSize = 0, m2Size = 0, lastUpdate = now\<rparr> \<and>
             count snap = length (sizesOf mid obs @ [x]) \<and>
             meanSize snap = batchMean (sizesOf mid obs @ [x]) \<and>
             m2Size snap / real (count snap) = batchVariance (sizesOf mid obs @ [x])"
proof -
  have "welfordInv [] (statsOrDefault now m mid)"
    using assms by (simp add: welfordInv_def statsOrDefault_def)
  from welfordInv_feedTrades [OF this, of obs]
  have "welfordInv (sizesOf mid obs) (statsOrDefault now (feedTrades obs m) mid)"
    by simp
  from welfordInv_step [OF this, of x now]
  have inv: "welfordInv (sizesOf mid obs @ [x])
      (welfordStep now (statsOrDefault now (feedTrades obs m) mid) x)" .
  have ne: "sizesOf mid obs @ [x] \<noteq> []" by simp
  show ?thesis
    using inv assms unfolding batchVariance_alt [OF ne]
    by (simp add: updateMarketStats_def Let_def welfordInv_def batchMean_def
        statsOrDefault_def)
qed

theorem welford_matches_batch_witness:
  "(Map.empty :: StatsMap) ''m1'' = None \<and>
   sizesOf ''m1'' [(1, ''m1'', 2), (2, ''m2'', 50), (2, ''m1'', 4)] = [2, 4] \<and>
   (case updateMarketStats 3 ''m1'' 6
           (feedTrades [(1, ''m1'', 2), (2, ''m2'', 50), (2, ''m1'', 4)] Map.empty) of
      (snap, m') \<Rightarrow>
        m' ''m1'' = Some snap \<and> count snap = 3 \<and> meanSize snap = 4 \<and>
        m2Size snap / real (count snap) = 8 / 3)"
  using welford_matches_batch
    [where m = Map.empty and mid = "''m1''" and now = 3 and x = 6
       and obs = "[(1, ''m1'', 2), (2, ''m2'', 50), (2, ''m1'', 4)]"]
  by (simp add: batchMean_def batchVariance_def updateMarketStats_def statsOrDefault_def
      welfordStep_def Let_def power2_eq_square sizesOf_def)

section \<open>The z-score inside the pipeline\<close>

text \<open>
  On a finite size and the statistics of the tracker the function returns a finite
  number or NaN, never an infinity.
\<close>

lemma calculateDynamicZScore_None:
  "calculateDynamicZScore (Num sz) None = Num ((sz - 200) / 300)"
  by (simp add: calculateDynamicZScore_def)

lemma calculateDynamicZScore_Some:
  "calculateDynamicZScore (Num sz) (Some (statsAsJs s)) =
     (if count s < 5 then Num ((sz - 200) / 300)
      else if m2Size s < 0 then NaN
      else if sqrt (m2Size s / real (count s)) = 0 then Num 0
      else Num ((sz - meanSize s) / sqrt (m2Size s / real (count s))))"
  by (auto simp add: calculateDynamicZScore_def statsAsJs_def
      Let_def jsStrictEquals_def divide_less_0_iff zero_le_divide_iff not_less)

section \<open>Properties of the heuristic scorer\<close>







section \<open>Properties of the z-score handed to the scorer\<close>

lemma sqrt_400_9: "sqrt (400 / 9) = 20 / 3"
  by (rule real_sqrt_unique) (simp_all add: power2_eq_square)

lemma steady_store:
  "feedTrades steadySizes Map.empty ''mkt'' =
     Some \<lparr>count = 8, meanSize = 100, m2Size = 8, lastUpdate = 8\<rparr>"
  by (simp add: steadySizes_def updateMarketStats_def statsOrDefault_def welfordStep_def Let_def)

text \<open>
  C3, as amended. For every trade that passes the gate, the statistics handed to the
  scorer are the snapshot returned by the update for this very trade: the market's
  statistics after the trade has been added. The z-score is the fixed reference
  (size - 200) / 300 when that snapshot counts fewer than 5 observations, 0 when its
  standard deviation sqrt(M2 / count) is 0, and (size - mean) / sqrt(M2 / count) with the
  snapshot's mean otherwise.
\<close>

theorem zscore_against_post_update:
  "case scoringStage env trade market st of
     (stats, whale, heur, st') \<Rightarrow>
       stats = welfordStep (clock env)
                 (statsOrDefault (clock env) (marketStatsRef st) (market_id market))
                 (trade_size trade) \<and>
       marketStatsRef st' (market_id market) = Some stats \<and>
       heur = analyzeTradeHeuristics (zFixed env) trade market (Some stats) (Some whale) \<and>
       calculateDynamicZScore (Num (trade_size trade)) (Some (statsAsJs stats)) =
         (if count stats < 5 then Num ((trade_size trade - 200) / 300)
          else if m2Size stats < 0 then NaN
          else if sqrt (m2Size stats / real (count stats)) = 0 then Num 0
          else Num ((trade_size trade - meanSize stats)
                      / sqrt (m2Size stats / real (count stats))))"
  unfolding calculateDynamicZScore_Some
  by (simp add: scoringStage_def Let_def updateMarketStats_def)

theorem zscore_against_post_update_witness:
  "(case scoringStage demoOracles spikeTrade deepMarket steadyState of
     (stats, whale, heur, st') \<Rightarrow>
       stats = \<lparr>count = 9, meanSize = 307 / 3, m2Size = 400, lastUpdate = 9\<rparr> \<and>
       marketStatsRef st' ''mkt'' = Some stats \<and>
       heur = (0, []) \<and>
       calculateDynamicZScore (Num 121) (Some (statsAsJs stats)) = Num (14 / 5))"
proof -
  have heur: "analyzeTradeHeuristics (zFixed demoOracles) spikeTrade deepMarket
      (Some \<lparr>count = 9, meanSize = 307 / 3, m2Size = 400, lastUpdate = 9\<rparr>) (Some False) = (0, [])"
    by (simp add: analyzeTradeHeuristics_def calculateDynamicZScore_Some sqrt_400_9
        Let_def spikeTrade_def deepMarket_def toLowerCase_def toLowerCaseChar_def
        knownInsider_def)
  have step: "welfordStep (clock demoOracles)
                 (statsOrDefault (clock demoOracles) (marketStatsRef steadyState)
                    (market_id deepMarket))
                 (trade_size spikeTrade) =
              \<lparr>count = 9, meanSize = 307 / 3, m2Size = 400, lastUpdate = 9\<rparr>"
    by (simp add: statsOrDefault_def welfordStep_def steadyState_def deepMarket_def
        spikeTrade_def demoOracles_def steady_store)
  have whale: "fst (snd (scoringStage demoOracles spikeTrade deepMarket steadyState)) = False"
    by (simp add: scoringStage_def Let_def demoOracles_def)
  show ?thesis
    using zscore_against_post_update
        [where env = demoOracles and trade = spikeTrade and market = deepMarket
           and st = steadyState]
      heur step whale
    by (auto simp add: sqrt_400_9 deepMarket_def spikeTrade_def split: prod.splits)
qed

text \<open>
  The claim as stated fails. After eight trades of sizes 99 and 101 the market has mean
  100 and standard deviation 1, so a ninth trade of size 121 lies 21 standard deviations
  from the statistics before it. The evaluation scores it against the statistics that
  already contain it (count 9, mean 307/3, M2 400): z-score 2.8, no factor, no alert.
\<close>

theorem pre_update_counterexample:
  "marketStatsRef steadyState (market_id deepMarket) =
     Some \<lparr>count = 8, meanSize = 100, m2Size = 8, lastUpdate = 8\<rparr> \<and>
   preUpdateZScore (trade_size spikeTrade)
     \<lparr>count = 8, meanSize = 100, m2Size = 8, lastUpdate = 8\<rparr> = 21 \<and>
   fst (scoringStage demoOracles spikeTrade deepMarket steadyState) =
     \<lparr>count = 9, meanSize = 307 / 3, m2Size = 400, lastUpdate = 9\<rparr> \<and>
   calculateDynamicZScore (Num (trade_size spikeTrade))
     (Some (statsAsJs (fst (scoringStage demoOracles spikeTrade deepMarket steadyState)))) =
     Num (14 / 5) \<and>
   fst (snd (snd (scoringStage demoOracles spikeTrade deepMarket steadyState))) = (0, []) \<and>
   fst (evaluateTrade analyzeSuspicion demoOracles spikeTrade deepMarket steadyState) = Inr None"
proof -
  have pre: "marketStatsRef steadyState (market_id deepMarket) =
     Some \<lparr>count = 8, meanSize = 100, m2Size = 8, lastUpdate = 8\<rparr>"
    by (simp add: steadyState_def deepMarket_def steady_store)
  have z: "preUpdateZScore (trade_size spikeTrade)
     \<lparr>count = 8, meanSize = 100, m2Size = 8, lastUpdate = 8\<rparr> = 21"
    by (simp add: preUpdateZScore_def spikeTrade_def)
  have post: "fst (scoringStage demoOracles spikeTrade deepMarket steadyState) =
     \<lparr>count = 9, meanSize = 307 / 3, m2Size = 400, lastUpdate = 9\<rparr>"
    by (simp add: scoringStage_def Let_def updateMarketStats_def statsOrDefault_def
        welfordStep_def steadyState_def deepMarket_def spikeTrade_def demoOracles_def
        steady_store)
  have z': "calculateDynamicZScore (Num (trade_size spikeTrade))
     (Some (statsAsJs \<lparr>count = 9, meanSize = 307 / 3, m2Size = 400, lastUpdate = 9\<rparr>)) =
     Num (14 / 5)"
    by (simp add: calculateDynamicZScore_Some spikeTrade_def sqrt_400_9)
  have heur: "analyzeTradeHeuristics (zFixed demoOracles) spikeTrade deepMarket
      (Some \<lparr>count = 9, meanSize = 307 / 3, m2Size = 400, lastUpdate = 9\<rparr>) (Some False) = (0, [])"
    using z' by (simp add: analyzeTradeHeuristics_def Let_def spikeTrade_def deepMarket_def
        toLowerCase_def toLowerCaseChar_def knownInsider_def)
  have stage: "fst (snd (snd (scoringStage demoOracles spikeTrade deepMarket steadyState))) = (0, [])"
    using heur post by (simp add: scoringStage_def Let_def demoOracles_def)
  obtain stats whale b f st3 where
    sc: "scoringStage demoOracles spikeTrade deepMarket steadyState = (stats, whale, (b, f), st3)"
    by (metis prod.collapse)
  have unseen: "trade_id spikeTrade \<notin> processedTradeIds steadyState"
    by (simp add: steadyState_def spikeTrade_def)
  have ev: "fst (evaluateTrade analyzeSuspicion demoOracles spikeTrade deepMarket steadyState)
      = Inr None"
    using stage unseen by (simp add: evaluateTrade_def sc)
  show ?thesis using pre z post z' stage ev by simp
qed

lemma welfordStep_m2_nonneg:
  assumes "0 \<le> m2Size s"
  shows "0 \<le> m2Size (welfordStep now s x)"
proof -
  define c where "c = real (count s + 1)"
  define d where "d = x - meanSize s"
  have c1: "1 \<le> c" by (simp add: c_def)
  have "x - (meanSize s + d / c) = d * (1 - 1 / c)"
    by (simp add: d_def right_diff_distrib)
  moreover have "0 \<le> 1 - 1 / c" using c1 by simp
  ultimately have "0 \<le> d * (x - (meanSize s + d / c))"
    by (simp add: mult.assoc [symmetric])
  then show ?thesis
    using assms by (simp add: welfordStep_def Let_def c_def d_def)
qed

section \<open>Properties of the z-score on JavaScript numbers\<close>

text \<open>
  C10, as amended. For every size and every statistics value, \<open>calculateDynamicZScore\<close>
  returns the fixed fallback (size - 200) / 300 when the statistics are absent or their
  count is below 5. Otherwise the count it divides M2 by is not zero; when the standard
  deviation sqrt(M2 / count) is 0 it returns 0, where the quotient (size - mean) / 0
  would not be a finite number; and when the standard deviation is not 0 it returns
  (size - mean) / stddev. So no input makes it divide by zero. The result is not NaN
  whenever the size is not NaN and the statistics are absent, or have a count that is not
  NaN, a finite mean and a finite, non-negative M2. Every update of the tracker keeps M2
  non-negative.
\<close>

theorem zscore_total:
  "calculateDynamicZScore sz None = jsDiv (jsSub sz (Num 200)) (Num 300) \<and>
   (jsLess (js_count s) (Num 5) \<longrightarrow>
      calculateDynamicZScore sz (Some s) = jsDiv (jsSub sz (Num 200)) (Num 300)) \<and>
   (\<not> jsLess (js_count s) (Num 5) \<longrightarrow>
      js_count s \<noteq> Num 0 \<and>
      (jsSqrt (jsDiv (js_m2Size s) (js_count s)) = Num 0 \<longrightarrow>
         calculateDynamicZScore sz (Some s) = Num 0 \<and>
         \<not> isFinite (jsDiv (jsSub sz (js_meanSize s))
                       (jsSqrt (jsDiv (js_m2Size s) (js_count s))))) \<and>
      (jsSqrt (jsDiv (js_m2Size s) (js_count s)) \<noteq> Num 0 \<longrightarrow>
         calculateDynamicZScore sz (Some s) =
           jsDiv (jsSub sz (js_meanSize s)) (jsSqrt (jsDiv (js_m2Size s) (js_count s))))) \<and>
   (sz \<noteq> NaN \<longrightarrow> calculateDynamicZScore sz None \<noteq> NaN) \<and>
   (sz \<noteq> NaN \<and> js_count s \<noteq> NaN \<and> isFinite (js_meanSize s) \<and> isFinite (js_m2Size s) \<and>
    \<not> jsLess (js_m2Size s) (Num 0) \<longrightarrow>
      calculateDynamicZScore sz (Some s) \<noteq> NaN) \<and>
   (\<forall>t now x. 0 \<le> m2Size t \<longrightarrow> 0 \<le> m2Size (welfordStep now t x))"
proof -
  define sd where "sd = jsSqrt (jsDiv (js_m2Size s) (js_count s))"
  have a: "calculateDynamicZScore sz None = jsDiv (jsSub sz (Num 200)) (Num 300)"
    by (simp add: calculateDynamicZScore_def)
  have b: "jsLess (js_count s) (Num 5) \<longrightarrow>
      calculateDynamicZScore sz (Some s) = jsDiv (jsSub sz (Num 200)) (Num 300)"
    by (simp add: calculateDynamicZScore_def)
  have c0: "\<not> jsLess (js_count s) (Num 5) \<longrightarrow> js_count s \<noteq> Num 0"
    by auto
  have zero: "\<not> isFinite (jsDiv x (Num 0))" for x
    by (cases x) simp_all
  have c1: "\<not> jsLess (js_count s) (Num 5) \<longrightarrow> sd = Num 0 \<longrightarrow>
         calculateDynamicZScore sz (Some s) = Num 0 \<and>
         \<not> isFinite (jsDiv (jsSub sz (js_meanSize s)) sd)"
    using zero by (simp add: calculateDynamicZScore_def Let_def jsStrictEquals_def sd_def)
  have c2: "\<not> jsLess (js_count s) (Num 5) \<longrightarrow> sd \<noteq> Num 0 \<longrightarrow>
         calculateDynamicZScore sz (Some s) = jsDiv (jsSub sz (js_meanSize s)) sd"
    by (auto simp add: calculateDynamicZScore_def Let_def jsStrictEquals_def sd_def)
  have d: "sz \<noteq> NaN \<longrightarrow> calculateDynamicZScore sz None \<noteq> NaN"
    by (cases sz) (simp_all add: calculateDynamicZScore_def)
  have e: "sz \<noteq> NaN \<and> js_count s \<noteq> NaN \<and> isFinite (js_meanSize s) \<and>
      isFinite (js_m2Size s) \<and> \<not> jsLess (js_m2Size s) (Num 0) \<longrightarrow>
      calculateDynamicZScore sz (Some s) \<noteq> NaN"
    by (cases sz; cases "js_count s"; cases "js_meanSize s"; cases "js_m2Size s")
      (auto simp add: calculateDynamicZScore_def Let_def jsStrictEquals_def
        divide_less_0_iff not_less)
  have f: "\<forall>t now x. 0 \<le> m2Size t \<longrightarrow> 0 \<le> m2Size (welfordStep now t x)"
    using welfordStep_m2_nonneg by blast
  from a b c0 c1 c2 d e f show ?thesis
    unfolding sd_def by blast
qed

text \<open>
  The fallback without statistics and on a count of 4; a count of 5 with M2 = 0, where the
  result is 0 and the quotient 1 / 0 would be Infinity; a count of 9 with M2 = 400,
  where the result is 18.67 / 6.67 = 2.8; an infinite size on a count of 5 with M2 = 20,
  where the result is not NaN.
\<close>

theorem zscore_total_witness:
  "calculateDynamicZScore (Num 500) None = Num 1 \<and>
   calculateDynamicZScore (Num 500)
     (Some \<lparr>js_count = Num 4, js_meanSize = Num 100, js_m2Size = Num 2,
            js_lastUpdate = Num 0\<rparr>) = Num 1 \<and>
   calculateDynamicZScore (Num 121)
     (Some \<lparr>js_count = Num 5, js_meanSize = Num 120, js_m2Size = Num 0,
            js_lastUpdate = Num 0\<rparr>) = Num 0 \<and>
   jsDiv (jsSub (Num 121) (Num 120)) (jsSqrt (jsDiv (Num 0) (Num 5))) = PosInf \<and>
   calculateDynamicZScore (Num 121)
     (Some \<lparr>js_count = Num 9, js_meanSize = Num (307 / 3), js_m2Size = Num 400,
            js_lastUpdate = Num 9\<rparr>) = Num (14 / 5) \<and>
   calculateDynamicZScore PosInf
     (Some \<lparr>js_count = Num 5, js_meanSize = Num 120, js_m2Size = Num 20,
            js_lastUpdate = Num 0\<rparr>) \<noteq> NaN \<and>
   0 \<le> m2Size (welfordStep 9 \<lparr>count = 8, meanSize = 100, m2Size = 8, lastUpdate = 8\<rparr> 121)"
proof -
  have a: "calculateDynamicZScore (Num 500) None = Num 1"
    using zscore_total [where sz = "Num 500"] by simp
  have b: "calculateDynamicZScore (Num 500)
     (Some \<lparr>js_count = Num 4, js_meanSize = Num 100, js_m2Size = Num 2,
            js_lastUpdate = Num 0\<rparr>) = Num 1"
    using zscore_total
      [where sz = "Num 500"
         and s = "\<lparr>js_count = Num 4, js_meanSize = Num 100, js_m2Size = Num 2,
                   js_lastUpdate = Num 0\<rparr>"]
    by simp
  have c: "calculateDynamicZScore (Num 121)
     (Some \<lparr>js_count = Num 5, js_meanSize = Num 120, js_m2Size = Num 0,
            js_lastUpdate = Num 0\<rparr>) = Num 0"
    using zscore_total
      [where sz = "Num 121"
         and s = "\<lparr>js_count = Num 5, js_meanSize = Num 120, js_m2Size = Num 0,
                   js_lastUpdate = Num 0\<rparr>"]
    by simp
  have c': "jsDiv (jsSub (Num 121) (Num 120)) (jsSqrt (jsDiv (Num 0) (Num 5))) = PosInf"
    by simp
  have d: "calculateDynamicZScore (Num 121)
     (Some \<lparr>js_count = Num 9, js_meanSize = Num (307 / 3), js_m2Size = Num 400,
            js_lastUpdate = Num 9\<rparr>) = Num (14 / 5)"
    using zscore_total
      [where sz = "Num 121"
         and s = "\<lparr>js_count = Num 9, js_meanSize = Num (307 / 3), js_m2Size = Num 400,
                   js_lastUpdate = Num 9\<rparr>"]
    by (simp add: sqrt_400_9)
  have e: "calculateDynamicZScore PosInf
     (Some \<lparr>js_count = Num 5, js_meanSize = Num 120, js_m2Size = Num 20,
            js_lastUpdate = Num 0\<rparr>) \<noteq> NaN"
    using zscore_total
      [where sz = PosInf
         and s = "\<lparr>js_count = Num 5, js_meanSize = Num 120, js_m2Size = Num 20,
                   js_lastUpdate = Num 0\<rparr>"]
    by simp
  have f: "0 \<le> m2Size (welfordStep 9
      \<lparr>count = 8, meanSize = 100, m2Size = 8, lastUpdate = 8\<rparr> 121)"
    using zscore_total [where sz = "Num 0"] by simp
  from a b c c' d e f show ?thesis by blast
qed

text \<open>
  The claim as stated fails. A size that is NaN gives NaN without statistics. So does a
  statistics value whose M2 is negative: the square root is NaN, which is not \<open>=== 0\<close>,
  and the quotient returned is NaN. So does one whose count is NaN.
\<close>

theorem nan_zscore_counterexample:
  "calculateDynamicZScore NaN None = NaN \<and>
   calculateDynamicZScore (Num 100)
     (Some \<lparr>js_count = Num 5, js_meanSize = Num 0, js_m2Size = Num (- 5),
            js_lastUpdate = Num 0\<rparr>) = NaN \<and>
   calculateDynamicZScore (Num 100)
     (Some \<lparr>js_count = NaN, js_meanSize = Num 0, js_m2Size = Num 5,
            js_lastUpdate = Num 0\<rparr>) = NaN"
  by (simp add: calculateDynamicZScore_def Let_def jsStrictEquals_def)

section \<open>Properties of score fusion\<close>

lemma round_half_int: "\<lfloor>real_of_int n / 2 + 1 / 2\<rfloor> = (n + 1) div 2"
proof -
  have "real_of_int n / 2 + 1 / 2 = real_of_int (n + 1) / real_of_int 2"
    by (simp add: add_divide_distrib)
  then show ?thesis
    by (simp only: floor_divide_of_int_eq)
qed

lemma levelOf_rounded_int:
  "levelOf (real_of_int ((n + 1) div 2)) = levelOf (real_of_int n / 2)"
proof -
  have t: "\<And>k::int. real_of_int ((n + 1) div 2) > real_of_int k \<longleftrightarrow> real_of_int n / 2 > real_of_int k"
  proof -
    fix k :: int
    have "real_of_int ((n + 1) div 2) > real_of_int k \<longleftrightarrow> (n + 1) div 2 > k"
      by linarith
    also have "\<dots> \<longleftrightarrow> n > 2 * k" by presburger
    also have "\<dots> \<longleftrightarrow> real_of_int n > real_of_int (2 * k)" by linarith
    also have "\<dots> \<longleftrightarrow> real_of_int n / 2 > real_of_int k" by (simp add: mult.commute)
    finally show "real_of_int ((n + 1) div 2) > real_of_int k \<longleftrightarrow> real_of_int n / 2 > real_of_int k" .
  qed
  show ?thesis
    unfolding levelOf_def using t [of 85] t [of 65] t [of 40] by simp
qed

text \<open>
  C4, as amended. The stored score is the average of the base score and the analyzer's
  score, rounded (a half upwards). The level is read off the average before rounding:
  CRITICAL above 85, HIGH above 65, MEDIUM above 40, else LOW. When the analyzer's score
  is an integer this is the level the same bounds give on the rounded score. In
  particular fuse(60, 80) = (70, HIGH), fuse(0, 0) = (0, LOW) and
  fuse(100, 100) = (100, CRITICAL).
\<close>

theorem fuse_levels:
  "fst (fuse b a) = round ((real_of_int b + a) / 2) \<and>
   snd (fuse b a) =
     (if (real_of_int b + a) / 2 > 85 then CRITICAL
      else if (real_of_int b + a) / 2 > 65 then HIGH
      else if (real_of_int b + a) / 2 > 40 then MEDIUM
      else LOW) \<and>
   (\<forall>k. a = real_of_int k \<longrightarrow> snd (fuse b a) = levelOf (real_of_int (fst (fuse b a)))) \<and>
   fuse 60 80 = (70, HIGH) \<and> fuse 0 0 = (0, LOW) \<and> fuse 100 100 = (100, CRITICAL)"
proof -
  have 1: "fst (fuse b a) = round ((real_of_int b + a) / 2)"
    by (simp add: fuse_def Let_def round_def)
  have 2: "snd (fuse b a) =
     (if (real_of_int b + a) / 2 > 85 then CRITICAL
      else if (real_of_int b + a) / 2 > 65 then HIGH
      else if (real_of_int b + a) / 2 > 40 then MEDIUM
      else LOW)"
    by (simp add: fuse_def Let_def levelOf_def)
  have 3: "\<forall>k. a = real_of_int k \<longrightarrow> snd (fuse b a) = levelOf (real_of_int (fst (fuse b a)))"
  proof (intro allI impI)
    fix k assume a: "a = real_of_int k"
    have avg: "(real_of_int b + a) / 2 = real_of_int (b + k) / 2"
      by (simp add: a)
    show "snd (fuse b a) = levelOf (real_of_int (fst (fuse b a)))"
      unfolding fuse_def Let_def fst_conv snd_conv avg round_half_int levelOf_rounded_int ..
  qed
  have 4: "fuse 60 80 = (70, HIGH)" "fuse 0 0 = (0, LOW)" "fuse 100 100 = (100, CRITICAL)"
    by (simp_all add: fuse_def Let_def levelOf_def)
  from 1 2 3 4 show ?thesis by blast
qed

theorem fuse_levels_witness:
  "fuse 85 86 = (86, CRITICAL) \<and> levelOf (real_of_int 86) = CRITICAL"
proof -
  have "fst (fuse 85 86) = 86"
    by (simp add: fuse_def Let_def)
  moreover have "snd (fuse 85 86) = levelOf (real_of_int (fst (fuse 85 86)))"
    using fuse_levels [where b = 85 and a = 86] by (metis of_int_numeral)
  moreover have "levelOf (real_of_int 86) = CRITICAL"
    by (simp add: levelOf_def)
  ultimately show ?thesis
    by (metis prod.collapse)
qed

text \<open>
  The claim as stated fails for an analyzer score that is not an integer: base score 100
  and analyzer score 70.5 average to 85.25, which is above 85 and so CRITICAL, while the
  stored score is 85, for which the bounds give HIGH.
\<close>

theorem fuse_rounded_counterexample:
  "fuse 100 (141 / 2) = (85, CRITICAL) \<and> levelOf (real_of_int 85) = HIGH"
  by (simp add: fuse_def Let_def levelOf_def)

section \<open>The backtest scenario\<close>

lemma scenario_insider:
  "toLowerCase (makerAddress (generateBacktestScenario now)) = toLowerCase knownInsider"
  by (simp add: generateBacktestScenario_def knownInsider_def)

lemma fuse_critical: "snd (fuse b a) = CRITICAL \<longleftrightarrow> a > 170 - real_of_int b"
  by (auto simp add: fuse_def Let_def levelOf_def)

text \<open>
  C9, as amended. For the backtest trade (size 35000, price 0.12, the denylisted maker)
  on a market with liquidity 450000 and statistics that give a z-score above 3, the scorer
  reports the z-score, liquidity, long-odds and insider factors, and the whale factor when
  the whale flag is set: all five factors and base score 160 with the flag, four factors
  and 130 without it, at least 100 either way. After fusion the level is CRITICAL exactly
  when the analyzer's score is above 10 with the whale flag, above 40 without it.
\<close>

theorem backtest_scenario:
  assumes "calculateDynamicZScore (Num 35000) (map_option statsAsJs stats) = Num z"
    and "z > 3"
    and "liquidity market = 450000"
  shows "analyzeTradeHeuristics toFixed (generateBacktestScenario now) market stats whaleFlag =
           (if whaleFlag = Some True then 160 else 130,
            [''High Size Z='' @ toFixed (Num z), ''Significant Liquidity Impact'',
             ''Speculative Accumulation'']
            @ (if whaleFlag = Some True then [''Verified Whale Activity''] else [])
            @ [''Blacklisted/Known Insider'']) \<and>
         100 \<le> fst (analyzeTradeHeuristics toFixed (generateBacktestScenario now) market stats
                       whaleFlag) \<and>
         (snd (fuse (fst (analyzeTradeHeuristics toFixed (generateBacktestScenario now) market
                            stats whaleFlag)) a) = CRITICAL
            \<longleftrightarrow> a > (if whaleFlag = Some True then 10 else 40))"
proof -
  have sz: "trade_size (generateBacktestScenario now) = 35000"
    and pr: "price (generateBacktestScenario now) = 12 / 100"
    by (simp_all add: generateBacktestScenario_def)
  have h: "analyzeTradeHeuristics toFixed (generateBacktestScenario now) market stats whaleFlag =
           (if whaleFlag = Some True then 160 else 130,
            [''High Size Z='' @ toFixed (Num z), ''Significant Liquidity Impact'',
             ''Speculative Accumulation'']
            @ (if whaleFlag = Some True then [''Verified Whale Activity''] else [])
            @ [''Blacklisted/Known Insider''])"
    unfolding analyzeTradeHeuristics_def Let_def sz pr scenario_insider assms(1) assms(3)
    using assms(2) by simp
  show ?thesis
    unfolding h fuse_critical by simp
qed


theorem backtest_scenario_witness:
  "calculateDynamicZScore (Num 35000) (map_option statsAsJs None) = Num 116 \<and>
   (116::real) > 3 \<and>
   liquidity scenarioMarket = 450000 \<and>
   analyzeTradeHeuristics toFixed1 (generateBacktestScenario 0) scenarioMarket None (Some True) =
     (160, [''High Size Z=116.0'', ''Significant Liquidity Impact'',
            ''Speculative Accumulation'', ''Verified Whale Activity'',
            ''Blacklisted/Known Insider'']) \<and>
   snd (fuse 160 11) = CRITICAL"
proof -
  have z: "calculateDynamicZScore (Num 35000) (map_option statsAsJs None) = Num 116"
    by (simp add: calculateDynamicZScore_None)
  have l: "liquidity scenarioMarket = 450000"
    by (simp add: scenarioMarket_def)
  have g: "(116::real) > 3" by simp
  have t: "toFixed1 (Num 116) = ''116.0''"
    by (simp add: toFixed1_def toFixed1Abs_def natToDecimal.simps Let_def)
  note th = backtest_scenario
    [OF z g l, where toFixed = toFixed1 and now = 0 and whaleFlag = "Some True" and a = 11]
  have h: "analyzeTradeHeuristics toFixed1 (generateBacktestScenario 0) scenarioMarket None
      (Some True) =
     (160, [''High Size Z=116.0'', ''Significant Liquidity Impact'',
            ''Speculative Accumulation'', ''Verified Whale Activity'',
            ''Blacklisted/Known Insider''])"
    using th [THEN conjunct1] unfolding t by simp
  have c: "snd (fuse 160 11) = CRITICAL"
    using th [THEN conjunct2, THEN conjunct2] unfolding h by simp
  from z g l h c show ?thesis by blast
qed

text \<open>
  The claim as stated fails: with all five factors (base score 160) and the non-negative
  analyzer score 0 the average is 80, and the level is HIGH.
\<close>

theorem backtest_not_critical_counterexample:
  "analyzeTradeHeuristics toFixed1 (generateBacktestScenario 0) scenarioMarket None (Some True) =
     (160, [''High Size Z=116.0'', ''Significant Liquidity Impact'',
            ''Speculative Accumulation'', ''Verified Whale Activity'',
            ''Blacklisted/Known Insider'']) \<and>
   (0::real) \<le> 0 \<and> fuse 160 0 = (80, HIGH)"
proof -
  have sz: "trade_size (generateBacktestScenario 0) = 35000"
    and pr: "price (generateBacktestScenario 0) = 12 / 100"
    by (simp_all add: generateBacktestScenario_def)
  have z: "calculateDynamicZScore (Num 35000) (map_option statsAsJs None) = Num 116"
    by (simp add: calculateDynamicZScore_None)
  have l: "liquidity scenarioMarket = 450000"
    by (simp add: scenarioMarket_def)
  have t: "toFixed1 (Num 116) = ''116.0''"
    by (simp add: toFixed1_def toFixed1Abs_def natToDecimal.simps Let_def)
  have h: "analyzeTradeHeuristics toFixed1 (generateBacktestScenario 0) scenarioMarket None
      (Some True) =
     (160, [''High Size Z=116.0'', ''Significant Liquidity Impact'',
            ''Speculative Accumulation'', ''Verified Whale Activity'',
            ''Blacklisted/Known Insider''])"
    unfolding analyzeTradeHeuristics_def Let_def sz pr scenario_insider z l
    by (simp add: t)
  have f: "fuse 160 0 = (80, HIGH)"
    by (simp add: fuse_def Let_def levelOf_def)
  show ?thesis using h f by simp
qed

section \<open>Properties of the dedup gate\<close>

lemma scoringStage_processed:
  "processedTradeIds (snd (snd (snd (scoringStage env trade market st)))) =
     insert (trade_id trade) (processedTradeIds st)"
  by (simp add: scoringStage_def Let_def)

lemma evaluateTrade_seen:
  "trade_id trade \<in> processedTradeIds st \<Longrightarrow>
   evaluateTrade analyze env trade market st = (Inr None, st)"
  by (simp add: evaluateTrade_def)

lemma evaluateTrade_processed:
  "processedTradeIds (snd (evaluateTrade analyze env trade market st)) =
     insert (trade_id trade) (processedTradeIds st)"
proof (cases "trade_id trade \<in> processedTradeIds st")
  case True
  then show ?thesis by (auto simp add: evaluateTrade_seen)
next
  case False
  obtain stats whale b f st3 where
    sc: "scoringStage env trade market st = (stats, whale, (b, f), st3)"
    by (metis prod.collapse)
  have p: "processedTradeIds st3 = insert (trade_id trade) (processedTradeIds st)"
    using scoringStage_processed [of env trade market st] by (simp add: sc)
  show ?thesis
    using False p
    by (simp add: evaluateTrade_def sc Let_def
        split: sum.splits ParsedJson.splits option.splits)
qed

lemma evaluateTrade_alert:
  assumes "fst (evaluateTrade analyze env trade market st) = Inr (Some a)"
  shows "alert_id a = trade_id trade \<and> trade_id trade \<notin> processedTradeIds st"
proof (cases "trade_id trade \<in> processedTradeIds st")
  case True
  with assms show ?thesis by (simp add: evaluateTrade_seen)
next
  case False
  obtain stats whale b f st3 where
    sc: "scoringStage env trade market st = (stats, whale, (b, f), st3)"
    by (metis prod.collapse)
  show ?thesis
    using False assms
    by (auto simp add: evaluateTrade_def sc Let_def
        split: sum.splits ParsedJson.splits option.splits if_splits)
qed

lemma evaluateAll_processed:
  "processedTradeIds st \<subseteq> processedTradeIds (snd (evaluateAll analyze calls st))"
proof (induction calls arbitrary: st)
  case Nil
  then show ?case by simp
next
  case (Cons c calls)
  obtain env trade market where c: "c = (env, trade, market)"
    by (cases c) auto
  have "processedTradeIds st \<subseteq>
        processedTradeIds (snd (evaluateTrade analyze env trade market st))"
    by (auto simp add: evaluateTrade_processed)
  also have "\<dots> \<subseteq> processedTradeIds
      (snd (evaluateAll analyze calls (snd (evaluateTrade analyze env trade market st))))"
    by (rule Cons.IH)
  finally show ?case
    by (simp add: c Let_def)
qed

lemma alertsOf_Cons:
  "alertsOf (r # rs) = (case r of Inr (Some a) \<Rightarrow> [a] | _ \<Rightarrow> []) @ alertsOf rs"
  by (simp add: alertsOf_def)

lemma evaluateAll_alert_ids:
  "distinct (map alert_id (alertsOf (fst (evaluateAll analyze calls st)))) \<and>
   set (map alert_id (alertsOf (fst (evaluateAll analyze calls st)))) \<inter> processedTradeIds st = {}"
proof (induction calls arbitrary: st)
  case Nil
  then show ?case by (simp add: alertsOf_def)
next
  case (Cons c calls)
  obtain env trade market where c: "c = (env, trade, market)"
    by (cases c) auto
  define r where "r = evaluateTrade analyze env trade market st"
  define rest where "rest = alertsOf (fst (evaluateAll analyze calls (snd r)))"
  have ih: "distinct (map alert_id rest)"
    and ih2: "set (map alert_id rest) \<inter> processedTradeIds (snd r) = {}"
    using Cons.IH [of "snd r"] by (simp_all add: rest_def)
  have pr: "processedTradeIds (snd r) = insert (trade_id trade) (processedTradeIds st)"
    by (simp add: r_def evaluateTrade_processed)
  have eq: "alertsOf (fst (evaluateAll analyze (c # calls) st)) =
      (case fst r of Inr (Some a) \<Rightarrow> [a] | _ \<Rightarrow> []) @ rest"
    by (simp add: c Let_def alertsOf_Cons r_def rest_def)
  show ?case
  proof (cases "\<exists>a. fst r = Inr (Some a)")
    case True
    then obtain a where a: "fst r = Inr (Some a)" by blast
    have ida: "alert_id a = trade_id trade" and fresh: "trade_id trade \<notin> processedTradeIds st"
      using evaluateTrade_alert [of analyze env trade market st a] a by (simp_all add: r_def)
    show ?thesis
      unfolding eq a using ih ih2 pr ida fresh by auto
  next
    case False
    then have "(case fst r of Inr (Some a) \<Rightarrow> [a] | _ \<Rightarrow> []) = []"
      by (auto split: sum.splits option.splits)
    then show ?thesis
      unfolding eq using ih ih2 pr by auto
  qed
qed

text \<open>
  C5. Evaluation happens at most once per trade id. An evaluation of a trade whose id is
  already marked returns null and leaves the whole state as it was: no statistics update,
  no scoring, no call to a collaborator. Once a trade has been submitted, however that
  evaluation ended, a later submission of any trade with the same id is such a no-op,
  whatever was evaluated in between. Over any sequence of evaluations the alerts produced
  have pairwise different ids, none of them an id that was marked at the start.
\<close>

theorem evaluation_at_most_once:
  "(trade_id trade \<in> processedTradeIds st \<longrightarrow>
      evaluateTrade analyze env trade market st = (Inr None, st)) \<and>
   (trade_id trade' = trade_id trade \<longrightarrow>
      evaluateTrade analyze env' trade' market'
        (snd (evaluateAll analyze calls (snd (evaluateTrade analyze env trade market st)))) =
      (Inr None,
       snd (evaluateAll analyze calls (snd (evaluateTrade analyze env trade market st))))) \<and>
   distinct (map alert_id (alertsOf (fst (evaluateAll analyze calls st)))) \<and>
   set (map alert_id (alertsOf (fst (evaluateAll analyze calls st)))) \<inter> processedTradeIds st = {}"
proof -
  have 1: "trade_id trade \<in> processedTradeIds st \<longrightarrow>
      evaluateTrade analyze env trade market st = (Inr None, st)"
    by (simp add: evaluateTrade_seen)
  have 2: "trade_id trade' = trade_id trade \<longrightarrow>
      evaluateTrade analyze env' trade' market'
        (snd (evaluateAll analyze calls (snd (evaluateTrade analyze env trade market st)))) =
      (Inr None,
       snd (evaluateAll analyze calls (snd (evaluateTrade analyze env trade market st))))"
  proof
    assume same: "trade_id trade' = trade_id trade"
    have "trade_id trade \<in> processedTradeIds (snd (evaluateTrade analyze env trade market st))"
      by (simp add: evaluateTrade_processed)
    then have "trade_id trade' \<in> processedTradeIds
        (snd (evaluateAll analyze calls (snd (evaluateTrade analyze env trade market st))))"
      using evaluateAll_processed same by fastforce
    then show "evaluateTrade analyze env' trade' market'
        (snd (evaluateAll analyze calls (snd (evaluateTrade analyze env trade market st)))) =
      (Inr None,
       snd (evaluateAll analyze calls (snd (evaluateTrade analyze env trade market st))))"
      by (rule evaluateTrade_seen)
  qed
  from 1 2 evaluateAll_alert_ids [of analyze calls st] show ?thesis by blast
qed

theorem evaluation_at_most_once_witness:
  "''t1'' \<in> processedTradeIds steadyState \<and>
   evaluateTrade analyzeSuspicion liveOracles (spikeTrade\<lparr>trade_id := ''t1''\<rparr>) deepMarket
     steadyState = (Inr None, steadyState) \<and>
   evaluateTrade analyzeSuspicion liveOracles (generateBacktestScenario 5) scenarioMarket
     (snd (evaluateAll analyzeSuspicion [(demoOracles, spikeTrade, deepMarket)]
        (snd (evaluateTrade analyzeSuspicion demoOracles (generateBacktestScenario 0)
                scenarioMarket freshState)))) =
     (Inr None,
      snd (evaluateAll analyzeSuspicion [(demoOracles, spikeTrade, deepMarket)]
        (snd (evaluateTrade analyzeSuspicion demoOracles (generateBacktestScenario 0)
                scenarioMarket freshState))))"
proof -
  have seen: "trade_id (spikeTrade\<lparr>trade_id := ''t1''\<rparr>) \<in> processedTradeIds steadyState"
    by (simp add: steadyState_def)
  have same: "trade_id (generateBacktestScenario 5) = trade_id (generateBacktestScenario 0)"
    by (simp add: generateBacktestScenario_def)
  note a = evaluation_at_most_once
      [where trade = "spikeTrade\<lparr>trade_id := ''t1''\<rparr>" and st = steadyState
         and analyze = analyzeSuspicion and env = liveOracles and market = deepMarket,
       THEN conjunct1, rule_format, OF seen]
  note b = evaluation_at_most_once
      [where trade' = "generateBacktestScenario 5" and trade = "generateBacktestScenario 0"
         and analyze = analyzeSuspicion and env' = liveOracles and market' = scenarioMarket
         and calls = "[(demoOracles, spikeTrade, deepMarket)]" and env = demoOracles
         and market = scenarioMarket and st = freshState,
       THEN conjunct2, THEN conjunct1, rule_format, OF same]
  from seen a b show ?thesis by simp
qed


section \<open>Properties of the alert ledger\<close>



























text \<open>
  The two evaluations of the concrete inputs: the trade from the denylisted address on
  the fresh component (base score 70, fallback score 30, alert with score 50), then the
  other trade (base score 20), with the fallback (score 15, alert with score 18) or with
  the reply that has no score (alert with score NaN).
\<close>

lemma cold_heuristics:
  assumes "trade_size trade = 300" and "price trade = 1 / 10" and "count stats < 5"
  shows "analyzeTradeHeuristics toFixed trade deepMarket (Some stats) (Some False) =
     (if toLowerCase (makerAddress trade) = toLowerCase knownInsider
      then (70, [''Speculative Accumulation'', ''Blacklisted/Known Insider''])
      else (20, [''Speculative Accumulation'']))"
proof -
  have z: "calculateDynamicZScore (Num 300) (map_option statsAsJs (Some stats)) = Num (1 / 3)"
    using assms(3) by (simp add: calculateDynamicZScore_Some)
  have l: "liquidity deepMarket = 1200000"
    by (simp add: deepMarket_def)
  show ?thesis
    unfolding analyzeTradeHeuristics_def Let_def assms(1,2) z l
    by simp
qed









section \<open>Properties of the suspicion analyzer\<close>

text \<open>
  The version of \<open>analyzeSuspicion\<close> in src/services/geminiService.ts always returns
  a value. When the request is rejected, the response has no text or the text does not
  parse, it is the fallback with score min(50, 15 * number of factors); with three factors
  the score is 45 and the risk level MEDIUM. A reply that parses is returned as it is,
  whatever its shape.
\<close>

lemma analyzeSuspicion_fallback:
  "(\<exists>r. analyzeSuspicion remote trade market fs w = Inr r) \<and>
   (remote \<in> {CallRejected, EmptyText, InvalidJson} \<longrightarrow>
      analyzeSuspicion remote trade market fs w = Inr (JsonValue (fallbackAnalysis fs)) \<and>
      analysis_score (fallbackAnalysis fs) =
        Some (real_of_int (min 50 (15 * int (length fs))))) \<and>
   (length fs = 3 \<longrightarrow>
      analysis_score (fallbackAnalysis fs) = Some 45 \<and>
      riskLevel (fallbackAnalysis fs) = Some MEDIUM) \<and>
   analyzeSuspicion (Parsed v) trade market fs w = Inr v"
  by (auto simp add: analyzeSuspicion_def tryAnalysis_def fallbackAnalysis_def Let_def
      mult.commute)

lemma scenario_live_score:
  "fst (snd (snd (scoringStage liveOracles (generateBacktestScenario 0) scenarioMarket freshState)))
     = (130, [''High Size Z=116.0'', ''Significant Liquidity Impact'',
              ''Speculative Accumulation'', ''Blacklisted/Known Insider''])"
proof -
  define stats where "stats = fst (updateMarketStats 9 ''mock-1'' 35000 Map.empty)"
  have t: "toFixed1 (Num 116) = ''116.0''"
    by (simp add: toFixed1_def toFixed1Abs_def natToDecimal.simps Let_def)
  have sz: "trade_size (generateBacktestScenario 0) = 35000"
    and pr: "price (generateBacktestScenario 0) = 12 / 100"
    and mk: "makerAddress (generateBacktestScenario 0) = knownInsider"
    by (simp_all add: generateBacktestScenario_def knownInsider_def)
  have z: "calculateDynamicZScore (Num 35000) (map_option statsAsJs (Some stats)) = Num 116"
    by (simp add: calculateDynamicZScore_Some stats_def updateMarketStats_def
        statsOrDefault_def welfordStep_def Let_def)
  have l: "liquidity scenarioMarket = 450000" and mid: "market_id scenarioMarket = ''mock-1''"
    by (simp_all add: scenarioMarket_def)
  have env: "simulationMode liveOracles = False" "clock liveOracles = 9"
    "holders liveOracles = None" "zFixed liveOracles = toFixed1"
    by (simp_all add: liveOracles_def)
  have fresh: "marketStatsRef freshState = Map.empty"
    by (simp add: freshState_def)
  have h: "analyzeTradeHeuristics toFixed1 (generateBacktestScenario 0) scenarioMarket
      (Some stats) (Some False) =
     (130, [''High Size Z=116.0'', ''Significant Liquidity Impact'',
              ''Speculative Accumulation'', ''Blacklisted/Known Insider''])"
    unfolding analyzeTradeHeuristics_def Let_def sz pr scenario_insider z l
    by (simp add: t)
  show ?thesis
    unfolding scoringStage_def Let_def
    by (simp add: env fresh mid sz stats_def [symmetric] h fetchMarketWhales_def)
qed

text \<open>
  C7. The claim does not hold of the other version of \<open>analyzeSuspicion\<close>: when
  \<open>fetchWalletStats\<close> has returned \<open>undefined\<close> (a failed or empty request in live
  mode), building the prompt throws a TypeError before the \<open>try\<close> is entered, the
  promise is rejected, and \<open>evaluateTrade\<close> is rejected with it. The version in
  src/services/geminiService.ts returns the fallback on the same input: score 45 and
  risk level MEDIUM for three factors. Neither version falls back on a reply that parses
  to a value of another shape: \<open>null\<close> and an object without any of the four properties
  are returned as they are.
\<close>

theorem analyzer_propagates_type_error:
  "fetchWalletStats False 9 None = None \<and>
   analyzeSuspicionFactsJson CallRejected (generateBacktestScenario 0) scenarioMarket
     [''High Size Z=116.0'', ''Significant Liquidity Impact'', ''Speculative Accumulation'']
     None = Inl TypeError \<and>
   fst (evaluateTrade analyzeSuspicionFactsJson liveOracles (generateBacktestScenario 0)
          scenarioMarket freshState) = Inl TypeError \<and>
   analyzeSuspicion CallRejected (generateBacktestScenario 0) scenarioMarket
     [''High Size Z=116.0'', ''Significant Liquidity Impact'', ''Speculative Accumulation'']
     None =
     Inr (JsonValue
       \<lparr>analysis_score = Some 45,
        analysis_reasoning = Some ''AI Unavailable - Heuristic Estimate Only'',
        analysis_factors =
          Some [''High Size Z=116.0'', ''Significant Liquidity Impact'',
                ''Speculative Accumulation''],
        riskLevel = Some MEDIUM\<rparr>) \<and>
   analyzeSuspicion (Parsed JsonNull) (generateBacktestScenario 0) scenarioMarket
     [''High Size Z=116.0'', ''Significant Liquidity Impact'', ''Speculative Accumulation'']
     None = Inr JsonNull \<and>
   analyzeSuspicion
     (Parsed (JsonValue \<lparr>analysis_score = None, analysis_reasoning = None,
                         analysis_factors = None, riskLevel = None\<rparr>))
     (generateBacktestScenario 0) scenarioMarket
     [''High Size Z=116.0'', ''Significant Liquidity Impact'', ''Speculative Accumulation'']
     None =
     Inr (JsonValue \<lparr>analysis_score = None, analysis_reasoning = None,
                     analysis_factors = None, riskLevel = None\<rparr>)"
proof -
  have w: "fetchWalletStats False 9 None = None"
    by (simp add: fetchWalletStats_def)
  have a: "analyzeSuspicionFactsJson CallRejected (generateBacktestScenario 0) scenarioMarket
     [''High Size Z=116.0'', ''Significant Liquidity Impact'', ''Speculative Accumulation'']
     None = Inl TypeError"
    by (simp add: analyzeSuspicionFactsJson_def)
  obtain stats whale st3 where
    sc: "scoringStage liveOracles (generateBacktestScenario 0) scenarioMarket freshState =
      (stats, whale,
       (130, [''High Size Z=116.0'', ''Significant Liquidity Impact'',
              ''Speculative Accumulation'', ''Blacklisted/Known Insider'']), st3)"
    using scenario_live_score by (metis prod.collapse)
  have unseen: "trade_id (generateBacktestScenario 0) \<notin> processedTradeIds freshState"
    by (simp add: freshState_def)
  have env: "simulationMode liveOracles = False" "clock liveOracles = 9"
    "firstActivity liveOracles = None"
    by (simp_all add: liveOracles_def)
  have e: "fst (evaluateTrade analyzeSuspicionFactsJson liveOracles (generateBacktestScenario 0)
          scenarioMarket freshState) = Inl TypeError"
    using unseen
    by (simp add: evaluateTrade_def sc Let_def analyzeSuspicionFactsJson_def
        fetchWalletStats_def env)
  have g: "analyzeSuspicion CallRejected (generateBacktestScenario 0) scenarioMarket
     [''High Size Z=116.0'', ''Significant Liquidity Impact'', ''Speculative Accumulation'']
     None =
     Inr (JsonValue
       \<lparr>analysis_score = Some 45,
        analysis_reasoning = Some ''AI Unavailable - Heuristic Estimate Only'',
        analysis_factors =
          Some [''High Size Z=116.0'', ''Significant Liquidity Impact'',
                ''Speculative Accumulation''],
        riskLevel = Some MEDIUM\<rparr>)"
    by (simp add: analyzeSuspicion_def tryAnalysis_def fallbackAnalysis_def Let_def)
  have n: "analyzeSuspicion (Parsed JsonNull) (generateBacktestScenario 0) scenarioMarket
     [''High Size Z=116.0'', ''Significant Liquidity Impact'', ''Speculative Accumulation'']
     None = Inr JsonNull"
    by (simp add: analyzeSuspicion_def tryAnalysis_def)
  have o: "analyzeSuspicion
     (Parsed (JsonValue \<lparr>analysis_score = None, analysis_reasoning = None,
                         analysis_factors = None, riskLevel = None\<rparr>))
     (generateBacktestScenario 0) scenarioMarket
     [''High Size Z=116.0'', ''Significant Liquidity Impact'', ''Speculative Accumulation'']
     None =
     Inr (JsonValue \<lparr>analysis_score = None, analysis_reasoning = None,
                     analysis_factors = None, riskLevel = None\<rparr>)"
    by (simp add: analyzeSuspicion_def tryAnalysis_def)
  from w a e g n o show ?thesis by blast
qed

section \<open>Properties of the bounded concurrent evaluator\<close>

lemma callAll_snoc:
  "callAll fn (xs @ [x]) s =
     (fst (callAll fn xs s) @ [fst (fn x (snd (callAll fn xs s)))],
      snd (fn x (snd (callAll fn xs s))))"
  by (induction xs arbitrary: s) (simp_all add: Let_def)

lemma mset_concat_update:
  "i < length ws \<Longrightarrow>
   mset (concat (map f (ws[i := w]))) + mset (f (ws ! i)) = mset (concat (map f ws)) + mset (f w)"
proof (induction ws arbitrary: i)
  case Nil
  then show ?case by simp
next
  case (Cons v vs)
  show ?case
  proof (cases i)
    case 0
    then show ?thesis by simp
  next
    case (Suc j)
    with Cons.prems have "j < length vs" by simp
    from Cons.IH [OF this] show ?thesis
      by (simp add: Suc ac_simps)
  qed
qed

lemma sum_weight_update:
  "i < length ws \<Longrightarrow>
   sum_list (map workerWeight (ws[i := w])) + workerWeight (ws ! i) =
     sum_list (map workerWeight ws) + workerWeight w"
proof (induction ws arbitrary: i)
  case Nil
  then show ?case by simp
next
  case (Cons v vs)
  show ?case
  proof (cases i)
    case 0
    then show ?thesis by simp
  next
    case (Suc j)
    with Cons.prems have "j < length vs" by simp
    from Cons.IH [OF this] show ?thesis
      by (simp add: Suc)
  qed
qed

lemma poolStep_weight: "poolStep fn c c' \<Longrightarrow> poolWeight c' < poolWeight c"
proof (induction rule: poolStep.induct)
  case (shift i c item rest)
  from sum_weight_update [OF shift(1), of "Awaiting (fst (fn item (shared c)))"] shift(2,3)
  show ?case by (simp add: poolWeight_def)
next
  case (leave i c)
  from sum_weight_update [OF leave(1), of Finished] leave(2)
  show ?case by (simp add: poolWeight_def)
next
  case (settle i c outcome)
  from sum_weight_update [OF settle(1), of Ready] settle(2)
  show ?case by (simp add: poolWeight_def)
qed

lemma poolInv_start: "poolInv fn items concurrency s (startPool items concurrency s)"
proof -
  have "concat (map pendingOf (replicate n Ready)) = ([] :: 'c list)" for n
    by (induction n) simp_all
  then show ?thesis
    unfolding poolInv_def startPool_def
    by (auto intro!: exI [of _ "[]"])
qed

lemma Finished_update:
  "Finished \<in> set (ws[i := w]) \<Longrightarrow> w \<noteq> Finished \<Longrightarrow> Finished \<in> set ws"
  by (metis in_set_conv_nth length_list_update nth_list_update_eq nth_list_update_neq)

lemma poolInv_step:
  assumes "poolInv fn items concurrency s c" and "poolStep fn c c'"
  shows "poolInv fn items concurrency s c'"
  using assms(2) assms(1)
proof (induction rule: poolStep.induct)
  case (shift i c item rest)
  from shift(4) obtain called where
    it: "items = called @ queue c" and sh: "shared c = snd (callAll fn called s)"
    and ms: "mset (results c) + mset (concat (map pendingOf (workers c))) =
          mset (concat (map pushed (fst (callAll fn called s))))"
    and len: "length (workers c) = min (length items) concurrency"
    and fin: "Finished \<in> set (workers c) \<longrightarrow> queue c = []"
    unfolding poolInv_def by blast
  let ?o = "fst (fn item (shared c))"
  have nofin: "Finished \<notin> set (workers c)"
    using fin shift(3) by auto
  have up: "mset (concat (map pendingOf ((workers c)[i := Awaiting ?o]))) =
      mset (concat (map pendingOf (workers c))) + mset (pushed ?o)"
    using mset_concat_update [OF shift(1), of pendingOf "Awaiting ?o"] shift(2) by simp
  have "items = (called @ [item]) @ rest"
    using it shift(3) by simp
  moreover have "snd (fn item (shared c)) = snd (callAll fn (called @ [item]) s)"
    by (simp add: callAll_snoc sh)
  moreover have "mset (results c) + mset (concat (map pendingOf ((workers c)[i := Awaiting ?o])))
      = mset (concat (map pushed (fst (callAll fn (called @ [item]) s))))"
    unfolding up using ms by (simp add: callAll_snoc sh)
  moreover have "Finished \<notin> set ((workers c)[i := Awaiting ?o])"
    using nofin Finished_update by fastforce
  ultimately show ?case
    unfolding poolInv_def using len
    by (auto intro!: exI [of _ "called @ [item]"])
next
  case (leave i c)
  from leave(4) obtain called where
    it: "items = called @ queue c" and sh: "shared c = snd (callAll fn called s)"
    and ms: "mset (results c) + mset (concat (map pendingOf (workers c))) =
          mset (concat (map pushed (fst (callAll fn called s))))"
    and len: "length (workers c) = min (length items) concurrency"
    unfolding poolInv_def by blast
  have up: "mset (concat (map pendingOf ((workers c)[i := Finished]))) =
      mset (concat (map pendingOf (workers c)))"
    using mset_concat_update [OF leave(1), of pendingOf Finished] leave(2) by simp
  show ?case
    unfolding poolInv_def using it sh ms len leave(3) up
    by (auto intro!: exI [of _ called])
next
  case (settle i c outcome)
  from settle(3) obtain called where
    it: "items = called @ queue c" and sh: "shared c = snd (callAll fn called s)"
    and ms: "mset (results c) + mset (concat (map pendingOf (workers c))) =
          mset (concat (map pushed (fst (callAll fn called s))))"
    and len: "length (workers c) = min (length items) concurrency"
    and fin: "Finished \<in> set (workers c) \<longrightarrow> queue c = []"
    unfolding poolInv_def by blast
  have up: "mset (concat (map pendingOf ((workers c)[i := Ready]))) + mset (pushed outcome) =
      mset (concat (map pendingOf (workers c)))"
    using mset_concat_update [OF settle(1), of pendingOf Ready] settle(2) by simp
  have ms': "mset (results c @ pushed outcome) +
      mset (concat (map pendingOf ((workers c)[i := Ready]))) =
      mset (concat (map pushed (fst (callAll fn called s))))"
    using ms up by (simp add: ac_simps)
  have fin': "Finished \<in> set ((workers c)[i := Ready]) \<longrightarrow> queue c = []"
    using fin Finished_update by fastforce
  show ?case
    unfolding poolInv_def using it sh ms' len fin'
    by (auto intro!: exI [of _ called])
qed

lemma poolInv_reachable:
  "(poolStep fn)\<^sup>*\<^sup>* (startPool items concurrency s) c \<Longrightarrow> poolInv fn items concurrency s c"
  by (induction rule: rtranclp_induct) (auto intro: poolInv_start poolInv_step)

lemma poolStep_progress:
  assumes "\<not> allLeft c"
  shows "\<exists>c'. poolStep fn c c'"
proof -
  from assms obtain i where i: "i < length (workers c)" and w: "workers c ! i \<noteq> Finished"
    unfolding allLeft_def list_all_length by blast
  show ?thesis
  proof (cases "workers c ! i")
    case Ready
    show ?thesis
    proof (cases "queue c")
      case Nil
      from poolStep.leave [OF i Ready Nil] show ?thesis by blast
    next
      case (Cons item rest)
      from poolStep.shift [OF i Ready Cons] show ?thesis by blast
    qed
  next
    case (Awaiting outcome)
    from poolStep.settle [OF i Awaiting] show ?thesis by blast
  next
    case Finished
    with w show ?thesis by simp
  qed
qed

lemma pool_terminates: "\<exists>c'. (poolStep fn)\<^sup>*\<^sup>* c c' \<and> allLeft c'"
proof (induction "poolWeight c" arbitrary: c rule: less_induct)
  case less
  show ?case
  proof (cases "allLeft c")
    case True
    then show ?thesis by blast
  next
    case False
    then obtain c1 where st: "poolStep fn c c1"
      using poolStep_progress by blast
    then have "poolWeight c1 < poolWeight c" by (rule poolStep_weight)
    from less [OF this] obtain c' where "(poolStep fn)\<^sup>*\<^sup>* c1 c'" and "allLeft c'"
      by blast
    with st show ?thesis
      by (meson converse_rtranclp_into_rtranclp)
  qed
qed

lemma pool_final:
  assumes "0 < concurrency" and "poolInv fn items concurrency s c" and "allLeft c"
  shows "queue c = [] \<and> shared c = snd (callAll fn items s) \<and>
         mset (results c) = mset (concat (map pushed (fst (callAll fn items s))))"
proof -
  from assms(2) obtain called where
    it: "items = called @ queue c" and sh: "shared c = snd (callAll fn called s)"
    and ms: "mset (results c) + mset (concat (map pendingOf (workers c))) =
          mset (concat (map pushed (fst (callAll fn called s))))"
    and len: "length (workers c) = min (length items) concurrency"
    and fin: "Finished \<in> set (workers c) \<longrightarrow> queue c = []"
    unfolding poolInv_def by blast
  have all: "\<forall>w\<in>set (workers c). w = Finished"
    using assms(3) by (simp add: allLeft_def list_all_iff)
  have q: "queue c = []"
  proof (cases "items = []")
    case True
    with it show ?thesis by simp
  next
    case False
    then have "0 < length items" by simp
    with len assms(1) have "0 < length (workers c)" by simp
    then have "workers c \<noteq> []" by simp
    then obtain w where "w \<in> set (workers c)" by (meson last_in_set)
    with all have "Finished \<in> set (workers c)" by auto
    with fin show ?thesis by simp
  qed
  have "concat (map pendingOf ws) = []" if "\<forall>w\<in>set ws. w = Finished" for ws :: "'c Worker list"
    using that by (induction ws) simp_all
  with all have p: "concat (map pendingOf (workers c)) = []" by blast
  from it q have "called = items" by simp
  with sh ms p q show ?thesis by simp
qed

text \<open>
  C8. With a positive concurrency limit, every run of \<open>processQueue\<close> returns: each
  step lowers a bound, and a pool in which some worker has not left can always take a
  step. When it returns, the queue is empty and every worker has left its loop, so
  \<open>fn\<close> has been called on every item, in queue order, and every promise has settled;
  the list returned holds exactly the truthy results of the fulfilled promises, in the
  order of their completion. A rejected promise and a null result contribute nothing and
  stop nothing.
\<close>

theorem process_queue_isolates_failures:
  assumes "0 < concurrency"
  shows "(\<exists>rs s'. processQueueReturns fn items concurrency s rs s') \<and>
         (\<forall>rs s'. processQueueReturns fn items concurrency s rs s' \<longrightarrow>
            mset rs = mset (concat (map pushed (fst (callAll fn items s)))) \<and>
            s' = snd (callAll fn items s)) \<and>
         (\<forall>c. (poolStep fn)\<^sup>*\<^sup>* (startPool items concurrency s) c \<and> allLeft c \<longrightarrow>
            queue c = [] \<and> (\<forall>w\<in>set (workers c). w = Finished)) \<and>
         (\<forall>c c'. poolStep fn c c' \<longrightarrow> poolWeight c' < poolWeight c) \<and>
         (\<forall>c. \<not> allLeft c \<longrightarrow> (\<exists>c'. poolStep fn c c')) \<and>
         (\<forall>e. pushed (Rejected e) = ([] :: 'c list)) \<and>
         pushed (Fulfilled None) = ([] :: 'c list) \<and>
         (\<forall>r :: 'c. pushed (Fulfilled (Some r)) = [r])"
proof -
  have 1: "\<exists>rs s'. processQueueReturns fn items concurrency s rs s'"
    using pool_terminates [of fn "startPool items concurrency s"]
    unfolding processQueueReturns_def by blast
  have 2: "\<forall>rs s'. processQueueReturns fn items concurrency s rs s' \<longrightarrow>
            mset rs = mset (concat (map pushed (fst (callAll fn items s)))) \<and>
            s' = snd (callAll fn items s)"
  proof (intro allI impI)
    fix rs s'
    assume "processQueueReturns fn items concurrency s rs s'"
    then obtain c where run: "(poolStep fn)\<^sup>*\<^sup>* (startPool items concurrency s) c"
      and left: "allLeft c" and rs: "results c = rs" and s': "shared c = s'"
      unfolding processQueueReturns_def by blast
    from pool_final [OF assms poolInv_reachable [OF run] left] rs s'
    show "mset rs = mset (concat (map pushed (fst (callAll fn items s)))) \<and>
            s' = snd (callAll fn items s)"
      by simp
  qed
  have 3: "\<forall>c. (poolStep fn)\<^sup>*\<^sup>* (startPool items concurrency s) c \<and> allLeft c \<longrightarrow>
            queue c = [] \<and> (\<forall>w\<in>set (workers c). w = Finished)"
  proof (intro allI impI)
    fix c
    assume a: "(poolStep fn)\<^sup>*\<^sup>* (startPool items concurrency s) c \<and> allLeft c"
    then have run: "(poolStep fn)\<^sup>*\<^sup>* (startPool items concurrency s) c"
      and left: "allLeft c" by simp_all
    from pool_final [OF assms poolInv_reachable [OF run] left] left
    show "queue c = [] \<and> (\<forall>w\<in>set (workers c). w = Finished)"
      by (simp add: allLeft_def list_all_iff)
  qed
  have 4: "\<forall>c c'. poolStep fn c c' \<longrightarrow> poolWeight c' < poolWeight c"
    using poolStep_weight by blast
  have 5: "\<forall>c. \<not> allLeft c \<longrightarrow> (\<exists>c'. poolStep fn c c')"
    using poolStep_progress by blast
  have 6: "\<forall>e. pushed (Rejected e) = ([] :: 'c list)"
    "pushed (Fulfilled None) = ([] :: 'c list)"
    "\<forall>r :: 'c. pushed (Fulfilled (Some r)) = [r]"
    by (simp_all add: pushed_def)
  from 1 2 3 4 5 6 show ?thesis by blast
qed

text \<open>
  A run on two items with both workers busy, in which the second call settles first.
\<close>

lemma two_item_run:
  fixes fn :: "'a \<Rightarrow> 's \<Rightarrow> 'r Settlement \<times> 's"
  shows "processQueueReturns fn [x, y] 3 s
     (pushed (fst (fn y (snd (fn x s)))) @ pushed (fst (fn x s)))
     (snd (fn y (snd (fn x s))))"
proof -
  define o1 where "o1 = fst (fn x s)"
  define s1 where "s1 = snd (fn x s)"
  define o2 where "o2 = fst (fn y s1)"
  define s2 where "s2 = snd (fn y s1)"
  define c0 :: "('a, 'r, 's) Pool" where
    "c0 = \<lparr>queue = [x, y], workers = [Ready, Ready], results = [], shared = s\<rparr>"
  define c1 :: "('a, 'r, 's) Pool" where
    "c1 = \<lparr>queue = [y], workers = [Awaiting o1, Ready], results = [], shared = s1\<rparr>"
  define c2 :: "('a, 'r, 's) Pool" where
    "c2 = \<lparr>queue = [], workers = [Awaiting o1, Awaiting o2], results = [], shared = s2\<rparr>"
  define c3 :: "('a, 'r, 's) Pool" where
    "c3 = \<lparr>queue = [], workers = [Awaiting o1, Ready], results = pushed o2, shared = s2\<rparr>"
  define c4 :: "('a, 'r, 's) Pool" where
    "c4 = \<lparr>queue = [], workers = [Ready, Ready], results = pushed o2 @ pushed o1,
           shared = s2\<rparr>"
  define c5 :: "('a, 'r, 's) Pool" where
    "c5 = \<lparr>queue = [], workers = [Finished, Ready], results = pushed o2 @ pushed o1,
           shared = s2\<rparr>"
  define c6 :: "('a, 'r, 's) Pool" where
    "c6 = \<lparr>queue = [], workers = [Finished, Finished], results = pushed o2 @ pushed o1,
           shared = s2\<rparr>"
  have start: "startPool [x, y] 3 s = c0"
    by (simp add: startPool_def c0_def numeral_2_eq_2)
  have 1: "poolStep fn c0 c1"
    using poolStep.shift [of 0 c0 x "[y]" fn]
    by (simp add: c0_def c1_def o1_def s1_def)
  have 2: "poolStep fn c1 c2"
    using poolStep.shift [of 1 c1 y "[]" fn]
    by (simp add: c1_def c2_def o2_def s2_def)
  have 3: "poolStep fn c2 c3"
    using poolStep.settle [of 1 c2 o2 fn]
    by (simp add: c2_def c3_def)
  have 4: "poolStep fn c3 c4"
    using poolStep.settle [of 0 c3 o1 fn]
    by (simp add: c3_def c4_def)
  have 5: "poolStep fn c4 c5"
    using poolStep.leave [of 0 c4 fn]
    by (simp add: c4_def c5_def)
  have 6: "poolStep fn c5 c6"
    using poolStep.leave [of 1 c5 fn]
    by (simp add: c5_def c6_def)
  have run: "(poolStep fn)\<^sup>*\<^sup>* c0 c6"
    using 1 2 3 4 5 6 by (meson rtranclp.rtrancl_into_rtrancl rtranclp.rtrancl_refl)
  have left: "allLeft c6" and r: "results c6 = pushed o2 @ pushed o1" and sh: "shared c6 = s2"
    by (simp_all add: allLeft_def c6_def)
  show ?thesis
    unfolding processQueueReturns_def start
    using run left r sh
    unfolding o1_def o2_def s1_def s2_def by blast
qed


lemma live_env:
  "simulationMode (walletAnswers trade) = False" "clock (walletAnswers trade) = 9"
  "holders (walletAnswers trade) = None" "gemini (walletAnswers trade) = CallRejected"
  "firstActivity (walletAnswers trade) = (if trade_id trade = ''t10'' then None else Some 1000)"
  "zFixed (walletAnswers trade) = toFixed1"
  by (simp_all add: walletAnswers_def liveOracles_def)

lemma insider_rejected:
  "cycleFn insiderTrade freshState =
     (Rejected TypeError,
      \<lparr>processedTradeIds = {''t10''},
       marketStatsRef = [''mkt'' \<mapsto> \<lparr>count = Suc 0, meanSize = 300, m2Size = 0, lastUpdate = 9\<rparr>],
       oracleCalls = [WhalesCall ''mkt'', WalletCall knownInsider, AnalyzerCall ''t10'']\<rparr>)"
proof -
  have t: "trade_size insiderTrade = 300" "price insiderTrade = 1 / 10"
    "trade_id insiderTrade = ''t10''" "makerAddress insiderTrade = knownInsider"
    "marketId insiderTrade = ''mkt''"
    by (simp_all add: insiderTrade_def spikeTrade_def)
  have m: "market_id deepMarket = ''mkt''"
    by (simp add: deepMarket_def)
  have u: "updateMarketStats 9 ''mkt'' 300 Map.empty =
      (\<lparr>count = Suc 0, meanSize = 300, m2Size = 0, lastUpdate = 9\<rparr>,
       [''mkt'' \<mapsto> \<lparr>count = Suc 0, meanSize = 300, m2Size = 0, lastUpdate = 9\<rparr>])"
    by (simp add: updateMarketStats_def statsOrDefault_def welfordStep_def Let_def)
  have h: "analyzeTradeHeuristics toFixed1 insiderTrade deepMarket
      (Some \<lparr>count = Suc 0, meanSize = 300, m2Size = 0, lastUpdate = 9\<rparr>) (Some False) =
      (70, [''Speculative Accumulation'', ''Blacklisted/Known Insider''])"
    using cold_heuristics
      [OF t(1) t(2), where toFixed = toFixed1
         and stats = "\<lparr>count = Suc 0, meanSize = 300, m2Size = 0, lastUpdate = 9\<rparr>"]
    by (simp add: t)
  have sc: "scoringStage (walletAnswers insiderTrade) insiderTrade deepMarket freshState =
      (\<lparr>count = Suc 0, meanSize = 300, m2Size = 0, lastUpdate = 9\<rparr>, False,
       (70, [''Speculative Accumulation'', ''Blacklisted/Known Insider'']),
       \<lparr>processedTradeIds = {''t10''},
        marketStatsRef = [''mkt'' \<mapsto> \<lparr>count = Suc 0, meanSize = 300, m2Size = 0, lastUpdate = 9\<rparr>],
        oracleCalls = [WhalesCall ''mkt'']\<rparr>)"
    unfolding scoringStage_def Let_def
    by (simp add: live_env t m freshState_def u h fetchMarketWhales_def)
  have unseen: "processedTradeIds freshState = {}"
    by (simp add: freshState_def)
  show ?thesis
    unfolding cycleFn_def evaluateCandidate_def
    by (simp add: t m evaluateTrade_def sc Let_def live_env fetchWalletStats_def
        analyzeSuspicionFactsJson_def unseen)
qed


lemma plain_fulfilled:
  "map (\<lambda>a. (alert_id a, suspicionScore a, level a, factors a))
     (pushed (fst (cycleFn plainTrade (snd (cycleFn insiderTrade freshState))))) =
     [(''t11'', Some 18, LOW, [''Speculative Accumulation''])]"
proof -
  define s1 where "s1 =
      \<lparr>processedTradeIds = {''t10''},
       marketStatsRef = [''mkt'' \<mapsto> \<lparr>count = Suc 0, meanSize = 300, m2Size = 0, lastUpdate = 9\<rparr>],
       oracleCalls = [WhalesCall ''mkt'', WalletCall knownInsider, AnalyzerCall ''t10'']\<rparr>"
  have s1: "snd (cycleFn insiderTrade freshState) = s1"
    by (simp add: insider_rejected s1_def)
  have t: "trade_size plainTrade = 300" "price plainTrade = 1 / 10"
    "trade_id plainTrade = ''t11''" "makerAddress plainTrade = ''0xabc''"
    "marketId plainTrade = ''mkt''"
    by (simp_all add: plainTrade_def spikeTrade_def)
  have m: "market_id deepMarket = ''mkt''"
    by (simp add: deepMarket_def)
  have u: "fst (updateMarketStats 9 ''mkt'' 300 (marketStatsRef s1)) =
      \<lparr>count = Suc (Suc 0), meanSize = 300, m2Size = 0, lastUpdate = 9\<rparr>"
    by (simp add: updateMarketStats_def statsOrDefault_def welfordStep_def Let_def s1_def)
  have ni: "toLowerCase (makerAddress plainTrade) \<noteq> toLowerCase knownInsider"
    by (simp add: t knownInsider_def toLowerCase_def)
  have h: "analyzeTradeHeuristics toFixed1 plainTrade deepMarket
      (Some \<lparr>count = Suc (Suc 0), meanSize = 300, m2Size = 0, lastUpdate = 9\<rparr>) (Some False) =
      (20, [''Speculative Accumulation''])"
    using cold_heuristics
      [OF t(1) t(2), where toFixed = toFixed1
         and stats = "\<lparr>count = Suc (Suc 0), meanSize = 300, m2Size = 0, lastUpdate = 9\<rparr>"] ni
    by simp
  obtain st3 where sc: "scoringStage (walletAnswers plainTrade) plainTrade deepMarket s1 =
      (\<lparr>count = Suc (Suc 0), meanSize = 300, m2Size = 0, lastUpdate = 9\<rparr>, False,
       (20, [''Speculative Accumulation'']), st3)"
    unfolding scoringStage_def Let_def
    by (simp add: live_env t m u h fetchMarketWhales_def)
  have unseen: "trade_id plainTrade \<notin> processedTradeIds s1"
    by (simp add: t s1_def)
  have f: "fuse 20 15 = (18, LOW)"
    by (simp add: fuse_def Let_def levelOf_def)
  have r: "map (\<lambda>a. (alert_id a, suspicionScore a, level a, factors a))
     (pushed (fst (cycleFn plainTrade s1))) =
     [(''t11'', Some 18, LOW, [''Speculative Accumulation''])]"
    unfolding cycleFn_def evaluateCandidate_def
    using unseen
    by (simp add: t m evaluateTrade_def sc Let_def live_env fetchWalletStats_def
        analyzeSuspicionFactsJson_def tryAnalysis_def fallbackAnalysis_def f pushed_def)
  show ?thesis
    unfolding s1 by (rule r)
qed


theorem process_queue_isolates_failures_witness:
  "(0::nat) < 3 \<and>
   fst (cycleFn insiderTrade freshState) = Rejected TypeError \<and>
   processQueueReturns cycleFn [insiderTrade, plainTrade] 3 freshState
     (pushed (fst (cycleFn plainTrade (snd (cycleFn insiderTrade freshState)))))
     (snd (cycleFn plainTrade (snd (cycleFn insiderTrade freshState)))) \<and>
   map (\<lambda>a. (alert_id a, suspicionScore a, level a, factors a))
     (pushed (fst (cycleFn plainTrade (snd (cycleFn insiderTrade freshState))))) =
     [(''t11'', Some 18, LOW, [''Speculative Accumulation''])] \<and>
   mset (pushed (fst (cycleFn plainTrade (snd (cycleFn insiderTrade freshState))))) =
     mset (concat (map pushed
       (fst (callAll cycleFn [insiderTrade, plainTrade] freshState))))"
proof -
  have k: "(0::nat) < 3" by simp
  have o1: "fst (cycleFn insiderTrade freshState) = Rejected TypeError"
    by (simp add: insider_rejected)
  have p1: "pushed (fst (cycleFn insiderTrade freshState)) = []"
    by (simp add: o1 pushed_def)
  have run: "processQueueReturns cycleFn [insiderTrade, plainTrade] 3 freshState
     (pushed (fst (cycleFn plainTrade (snd (cycleFn insiderTrade freshState)))))
     (snd (cycleFn plainTrade (snd (cycleFn insiderTrade freshState))))"
    using two_item_run [of cycleFn insiderTrade plainTrade freshState]
    by (simp add: p1)
  note th = process_queue_isolates_failures
      [OF k, where fn = cycleFn and items = "[insiderTrade, plainTrade]" and s = freshState]
  from th run have eq:
    "mset (pushed (fst (cycleFn plainTrade (snd (cycleFn insiderTrade freshState))))) =
     mset (concat (map pushed
       (fst (callAll cycleFn [insiderTrade, plainTrade] freshState))))"
    by blast
  from k o1 run plain_fulfilled eq show ?thesis by blast
qed

end
